theory Spec2Isabelle
  imports
    Main
    "HOL-Library.Char_ord"
    "HOL-Library.List_Lexorder"
    "HOL-Library.Option_ord"
    "HOL-Library.Multiset"
begin

section \<open>Bozloader: the upload review workflow\<close>

text \<open>
  The repository holds two Flask applications over one SQLite table \<open>uploads\<close>:
  \<open>main.py\<close> (handlers \<open>upload_file\<close>, \<open>admin_panel\<close>, \<open>approve_upload\<close>,
  \<open>deny_upload\<close>, with \<open>notifications.py\<close> and \<open>plex_integration.py\<close>) and the
  self-contained \<open>routes.py\<close> (handlers \<open>upload\<close>, \<open>admin\<close>, \<open>approve\<close>,
  \<open>deny\<close>). Each handler is embedded as a function from the state of the world
  (table, file system, messages sent, application log) to a response and the new state.
  What the handlers read from outside (the clock, the generated uuid, whether the SMTP
  server, the Discord webhook and the Plex server answer) is the argument \<open>env\<close>.

  Left out: the templates and the text of the messages, the admin session (the handlers
  behind \<open>@admin_required\<close> are modelled as called by a logged-in admin), and failures
  of SQLite other than a primary key that is taken. Strings are byte strings.
\<close>

subsection \<open>File system\<close>

text \<open>
  Files are a map from path to bytes. The list \<open>denied\<close> holds the paths at which the
  operating system refuses to create, write or delete (permission denied, read-only or
  full device); it is how a failing \<open>file.save\<close>, \<open>mkdir\<close>, \<open>os.remove\<close> or
  \<open>shutil.move\<close> is injected. An exception is its message.
\<close>

type_synonym path = string
type_synonym exn = string

record filesystem =
  files :: "path \<rightharpoonup> string"
  denied :: "path list"

text \<open>\<open>Path(d) / n\<close> and \<open>os.path.join(d, n)\<close>: an absolute second component replaces the first.\<close>

definition path_join :: "path \<Rightarrow> string \<Rightarrow> path" where
  "path_join d n = (case n of
       [] \<Rightarrow> d @ ''/''
     | c # cs \<Rightarrow> (if c = CHR ''/'' then n else d @ ''/'' @ n))"

text \<open>\<open>mkdir(parents=True, exist_ok=True)\<close> and \<open>os.makedirs(d, exist_ok=True)\<close>.\<close>

definition mkdir :: "filesystem \<Rightarrow> path \<Rightarrow> exn + filesystem" where
  "mkdir f d = (if d \<in> set (denied f) then Inl ''PermissionError'' else Inr f)"

text \<open>\<open>file.save(p)\<close> (werkzeug \<open>FileStorage.save\<close>): creates or overwrites the file.\<close>

definition save :: "filesystem \<Rightarrow> path \<Rightarrow> string \<Rightarrow> exn + filesystem" where
  "save f p bytes =
     (if p \<in> set (denied f) then Inl ''PermissionError''
      else Inr (f\<lparr>files := (files f)(p \<mapsto> bytes)\<rparr>))"

definition getsize :: "filesystem \<Rightarrow> path \<Rightarrow> exn + nat" where
  "getsize f p = (case files f p of None \<Rightarrow> Inl ''FileNotFoundError'' | Some bytes \<Rightarrow> Inr (length bytes))"

definition exists :: "filesystem \<Rightarrow> path \<Rightarrow> bool" where
  "exists f p = (files f p \<noteq> None)"

definition os_remove :: "filesystem \<Rightarrow> path \<Rightarrow> exn + filesystem" where
  "os_remove f p =
     (case files f p of
        None \<Rightarrow> Inl ''FileNotFoundError''
      | Some bytes \<Rightarrow>
          (if p \<in> set (denied f) then Inl ''PermissionError''
           else Inr (f\<lparr>files := (files f)(p := None)\<rparr>)))"

text \<open>
  \<open>shutil.move(src, dst)\<close> between files: \<open>os.rename\<close>, which on POSIX replaces an
  existing destination file without any error.
\<close>

definition shutil_move :: "filesystem \<Rightarrow> path \<Rightarrow> path \<Rightarrow> exn + filesystem" where
  "shutil_move f src dst =
     (case files f src of
        None \<Rightarrow> Inl ''FileNotFoundError''
      | Some bytes \<Rightarrow>
          (if src \<in> set (denied f) \<or> dst \<in> set (denied f) then Inl ''PermissionError''
           else Inr (f\<lparr>files := ((files f)(src := None))(dst \<mapsto> bytes)\<rparr>)))"

subsection \<open>Clock\<close>

record datetime =
  year :: nat
  month :: nat
  day :: nat
  hour :: nat
  minute :: nat
  second :: nat
  microsecond :: nat

definition digit :: "nat \<Rightarrow> char" where
  "digit d = ''0123456789'' ! (d mod 10)"

text \<open>\<open>pad2 n\<close> is \<open>'%02d' % n\<close>, and so on.\<close>

definition pad2 :: "nat \<Rightarrow> string" where
  "pad2 n = [digit (n div 10), digit n]"

definition pad4 :: "nat \<Rightarrow> string" where
  "pad4 n = [digit (n div 1000), digit (n div 100), digit (n div 10), digit n]"

definition pad6 :: "nat \<Rightarrow> string" where
  "pad6 n = [digit (n div 100000), digit (n div 10000), digit (n div 1000),
             digit (n div 100), digit (n div 10), digit n]"

text \<open>\<open>datetime.isoformat()\<close>: the microseconds are left out when they are zero.\<close>

definition isoformat :: "datetime \<Rightarrow> string" where
  "isoformat t =
     pad4 (year t) @ ''-'' @ pad2 (month t) @ ''-'' @ pad2 (day t) @ ''T'' @
     pad2 (hour t) @ '':'' @ pad2 (minute t) @ '':'' @ pad2 (second t) @
     (if microsecond t = 0 then [] else ''.'' @ pad6 (microsecond t))"

text \<open>\<open>strftime('%Y%m%d_%H%M%S')\<close>.\<close>

definition strftime :: "datetime \<Rightarrow> string" where
  "strftime t =
     pad4 (year t) @ pad2 (month t) @ pad2 (day t) @ ''_'' @
     pad2 (hour t) @ pad2 (minute t) @ pad2 (second t)"

text \<open>SQLite's \<open>CURRENT_TIMESTAMP\<close>, the column default of \<open>upload_date\<close> in routes.py.\<close>

definition CURRENT_TIMESTAMP :: "datetime \<Rightarrow> string" where
  "CURRENT_TIMESTAMP t =
     pad4 (year t) @ ''-'' @ pad2 (month t) @ ''-'' @ pad2 (day t) @ '' '' @
     pad2 (hour t) @ '':'' @ pad2 (minute t) @ '':'' @ pad2 (second t)"

record env =
  now :: datetime
  uuid4 :: string
  smtp_up :: bool
  discord_up :: bool
  plex_up :: bool

subsection \<open>The table \<open>uploads\<close>\<close>

datatype status = Pending | Approved | Denied

text \<open>
  The columns both schemas have; \<open>'i\<close> is the key: \<open>TEXT\<close> (a uuid) in main.py,
  \<open>INTEGER AUTOINCREMENT\<close> in routes.py.
\<close>

record 'i row =
  row_id :: 'i
  filename :: string
  original_filename :: string
  media_type :: string
  uploader_email :: string
  upload_date :: string
  status :: status
  file_size :: nat
  row_notes :: "string option"

text \<open>main.py's schema has the column \<open>reviewed_date\<close> as well.\<close>

record upload_row = "string row" +
  reviewed_date :: "string option"

type_synonym routes_row = "nat row"

subsection \<open>Messages and the state of the world\<close>

datatype notice = Upload_received | New_upload_pending | Upload_approved | Upload_denied

datatype event =
    Email string notice string
  | Discord notice string
  | Plex_refresh string

record 'r world =
  db :: "'r list"
  fs :: filesystem
  outbox :: "event list"
  applog :: "string list"

text \<open>\<open>SELECT * FROM uploads WHERE id = ?\<close> followed by \<open>fetchone()\<close>.\<close>

definition fetchone :: "('i, 'z) row_scheme list \<Rightarrow> 'i \<Rightarrow> ('i, 'z) row_scheme option" where
  "fetchone rows i = find (\<lambda>r. row_id r = i) rows"

text \<open>\<open>UPDATE uploads SET ... WHERE id = ?\<close>.\<close>

definition update_where_id ::
  "'i \<Rightarrow> (('i, 'z) row_scheme \<Rightarrow> ('i, 'z) row_scheme) \<Rightarrow> ('i, 'z) row_scheme list \<Rightarrow> ('i, 'z) row_scheme list" where
  "update_where_id i f rows = map (\<lambda>r. if row_id r = i then f r else r) rows"

text \<open>\<open>ORDER BY k DESC\<close>; SQLite compares \<open>TEXT\<close> bytewise and puts \<open>NULL\<close> below every value.\<close>

definition order_by_desc :: "('r \<Rightarrow> 'k::linorder) \<Rightarrow> 'r list \<Rightarrow> 'r list" where
  "order_by_desc k rows = rev (sort_key k rows)"

subsection \<open>config.py\<close>

record config =
  PENDING_MOVIES_PATH :: path
  PENDING_TV_PATH :: path
  PLEX_MOVIES_PATH :: path
  PLEX_TV_PATH :: path
  ADMIN_EMAILS :: "string list"
  SMTP_USERNAME :: string
  SMTP_PASSWORD :: string
  EMAIL_ENABLED :: bool
  DISCORD_WEBHOOK_URL :: string
  PLEX_TOKEN :: string
  PLEX_MOVIES_LIBRARY :: string
  PLEX_TV_LIBRARY :: string

definition DISCORD_ENABLED :: "config \<Rightarrow> bool" where
  "DISCORD_ENABLED cfg = (DISCORD_WEBHOOK_URL cfg \<noteq> [])"

definition PLEX_ENABLED :: "config \<Rightarrow> bool" where
  "PLEX_ENABLED cfg = (PLEX_TOKEN cfg \<noteq> [])"

subsection \<open>notifications.py and plex_integration.py\<close>

text \<open>
  A message that leaves the process is an \<open>event\<close> appended to \<open>outbox\<close>; the HTML of the
  bodies is not modelled. \<open>send_email\<close> and \<open>send_discord_notification\<close> print and
  re-raise when the server cannot be reached.
\<close>

definition send_email :: "config \<Rightarrow> env \<Rightarrow> 'r world \<Rightarrow> string \<Rightarrow> notice \<Rightarrow> string \<Rightarrow> exn + 'r world" where
  "send_email cfg e w to_email subject fname =
     (if \<not> EMAIL_ENABLED cfg then Inr w
      else if SMTP_USERNAME cfg = [] \<or> SMTP_PASSWORD cfg = [] then Inr w
      else if smtp_up e then Inr (w\<lparr>outbox := outbox w @ [Email to_email subject fname]\<rparr>)
      else Inl ''SMTPException'')"

definition send_discord_notification :: "config \<Rightarrow> env \<Rightarrow> 'r world \<Rightarrow> notice \<Rightarrow> string \<Rightarrow> exn + 'r world" where
  "send_discord_notification cfg e w title fname =
     (if \<not> DISCORD_ENABLED cfg \<or> DISCORD_WEBHOOK_URL cfg = [] then Inr w
      else if discord_up e then Inr (w\<lparr>outbox := outbox w @ [Discord title fname]\<rparr>)
      else Inl ''HTTPError'')"

text \<open>\<open>try: f() except Exception as e: print(...)\<close>: the state before the call is kept.\<close>

definition swallow :: "'r world \<Rightarrow> exn + 'r world \<Rightarrow> 'r world" where
  "swallow w r = (case r of Inl ex \<Rightarrow> w | Inr w' \<Rightarrow> w')"

text \<open>\<open>try: f() except Exception as e: app.logger.error(f"msg{e}")\<close>.\<close>

definition log_failure :: "string \<Rightarrow> 'r world \<Rightarrow> exn + 'r world \<Rightarrow> 'r world" where
  "log_failure msg w r =
     (case r of Inl ex \<Rightarrow> w\<lparr>applog := applog w @ [msg @ ex]\<rparr> | Inr w' \<Rightarrow> w')"

definition send_upload_notification ::
  "config \<Rightarrow> env \<Rightarrow> 'r world \<Rightarrow> string \<Rightarrow> string \<Rightarrow> string \<Rightarrow> string \<Rightarrow> exn + 'r world" where
  "send_upload_notification cfg e w uploader fname mtype upload_id =
     (let w1 = swallow w (send_email cfg e w uploader Upload_received fname);
          w2 = fold (\<lambda>admin_email v. swallow v (send_email cfg e v admin_email New_upload_pending fname))
                 (ADMIN_EMAILS cfg) w1;
          w3 = (if DISCORD_ENABLED cfg
                then swallow w2 (send_discord_notification cfg e w2 New_upload_pending fname)
                else w2)
      in Inr w3)"

definition send_approval_notification ::
  "config \<Rightarrow> env \<Rightarrow> 'r world \<Rightarrow> string \<Rightarrow> string \<Rightarrow> string \<Rightarrow> exn + 'r world" where
  "send_approval_notification cfg e w uploader fname mtype =
     (case send_email cfg e w uploader Upload_approved fname of
        Inl ex \<Rightarrow> Inl ex
      | Inr w1 \<Rightarrow>
          Inr (if DISCORD_ENABLED cfg
               then swallow w1 (send_discord_notification cfg e w1 Upload_approved fname)
               else w1))"

definition send_denial_notification ::
  "config \<Rightarrow> env \<Rightarrow> 'r world \<Rightarrow> string \<Rightarrow> string \<Rightarrow> string \<Rightarrow> exn + 'r world" where
  "send_denial_notification cfg e w uploader fname review_notes =
     (case send_email cfg e w uploader Upload_denied fname of
        Inl ex \<Rightarrow> Inl ex
      | Inr w1 \<Rightarrow>
          Inr (if DISCORD_ENABLED cfg
               then swallow w1 (send_discord_notification cfg e w1 Upload_denied fname)
               else w1))"

text \<open>
  \<open>trigger_plex_scan\<close> catches every exception of its two HTTP requests and returns a
  boolean; \<open>plex_up\<close> says that the server answers and has a section of that title.
\<close>

definition trigger_plex_scan :: "config \<Rightarrow> env \<Rightarrow> 'r world \<Rightarrow> string \<Rightarrow> bool \<times> 'r world" where
  "trigger_plex_scan cfg e w library_name =
     (if \<not> PLEX_ENABLED cfg then (False, w)
      else if \<not> plex_up e then (False, w)
      else (True, w\<lparr>outbox := outbox w @ [Plex_refresh library_name]\<rparr>))"

subsection \<open>main.py\<close>

record request =
  req_file :: "(string \<times> string) option"
  form_media_type :: "string option"
  form_notes :: "string option"
  cf_access_email :: "string option"
  x_user_email :: "string option"

datatype response = JsonError string nat | JsonSuccess string "string option"

text \<open>An exception no handler catches reaches \<open>@app.errorhandler(500)\<close>.\<close>

definition server_error :: response where
  "server_error = JsonError ''Internal server error'' 500"

definition get_user_email :: "request \<Rightarrow> string" where
  "get_user_email req =
     (let fallback = (case x_user_email req of None \<Rightarrow> ''anonymous@example.com'' | Some x \<Rightarrow> x)
      in case cf_access_email req of
           None \<Rightarrow> fallback
         | Some cf_email \<Rightarrow> (if cf_email \<noteq> [] then cf_email else fallback))"

definition lower_char :: "char \<Rightarrow> char" where
  "lower_char c =
     (case map_of (zip ''ABCDEFGHIJKLMNOPQRSTUVWXYZ'' ''abcdefghijklmnopqrstuvwxyz'') c of
        None \<Rightarrow> c | Some l \<Rightarrow> l)"

definition lower :: "string \<Rightarrow> string" where
  "lower s = map lower_char s"

text \<open>\<open>filename.rsplit('.', 1)[1]\<close>, for a name that has a dot.\<close>

definition rsplit_dot_last :: "string \<Rightarrow> string" where
  "rsplit_dot_last s = rev (takeWhile (\<lambda>c. c \<noteq> CHR ''.'') (rev s))"

definition allowed_extensions :: "string list" where
  "allowed_extensions =
     [''mp4'', ''mkv'', ''avi'', ''mov'', ''wmv'', ''flv'', ''webm'',
      ''m4v'', ''mpg'', ''mpeg'', ''ts'', ''vob'', ''iso'']"

definition allowed_file :: "string \<Rightarrow> bool" where
  "allowed_file fname =
     (CHR ''.'' \<in> set fname \<and> lower (rsplit_dot_last fname) \<in> set allowed_extensions)"

text \<open>\<open>INSERT\<close> with an explicit key: \<open>id TEXT PRIMARY KEY\<close> refuses a key that is taken.\<close>

definition insert_row :: "('i, 'z) row_scheme list \<Rightarrow> ('i, 'z) row_scheme \<Rightarrow> exn + ('i, 'z) row_scheme list" where
  "insert_row rows r =
     (if row_id r \<in> row_id ` set rows then Inl ''IntegrityError'' else Inr (rows @ [r]))"

text \<open>
  \<open>upload_file\<close>. \<open>secure_filename\<close> is werkzeug's and is a parameter. The row is
  inserted with \<open>status\<close> at its default \<open>'pending'\<close> and \<open>reviewed_date\<close>, \<open>notes\<close>
  \<open>NULL\<close>.
\<close>

definition upload_file ::
  "(string \<Rightarrow> string) \<Rightarrow> config \<Rightarrow> env \<Rightarrow> request \<Rightarrow> upload_row world \<Rightarrow> response \<times> upload_row world" where
  "upload_file secure_filename cfg e req w =
     (case req_file req of
        None \<Rightarrow> (JsonError ''No file selected'' 400, w)
      | Some (file_filename, file_bytes) \<Rightarrow>
          (let mtype = (case form_media_type req of None \<Rightarrow> ''movie'' | Some m \<Rightarrow> m);
               user_email = get_user_email req
           in if file_filename = [] then (JsonError ''No file selected'' 400, w)
              else if \<not> allowed_file file_filename
              then (JsonError ''File type not allowed. Please upload video files only.'' 400, w)
              else
                (let upload_id = uuid4 e;
                     original = file_filename;
                     secure_name = secure_filename original;
                     upload_path = (if mtype = ''tv'' then PENDING_TV_PATH cfg
                                    else PENDING_MOVIES_PATH cfg)
                 in case mkdir (fs w) upload_path of
                      Inl ex \<Rightarrow> (server_error, w)
                    | Inr f0 \<Rightarrow>
                        (let final_filename = upload_id @ ''_'' @ secure_name;
                             file_path = path_join upload_path final_filename
                         in case save f0 file_path file_bytes of
                              Inl ex \<Rightarrow> (JsonError (''Failed to save file: '' @ ex) 500, w)
                            | Inr f1 \<Rightarrow>
                                (case getsize f1 file_path of
                                   Inl ex \<Rightarrow> (JsonError (''Failed to save file: '' @ ex) 500, w\<lparr>fs := f1\<rparr>)
                                 | Inr sz \<Rightarrow>
                                     (case insert_row (db w)
                                             \<lparr>row_id = upload_id, filename = final_filename,
                                              original_filename = original, media_type = mtype,
                                              uploader_email = user_email,
                                              upload_date = isoformat (now e), status = Pending,
                                              file_size = sz, row_notes = None,
                                              reviewed_date = None\<rparr> of
                                        Inl ex \<Rightarrow> (server_error, w\<lparr>fs := f1\<rparr>)
                                      | Inr rows \<Rightarrow>
                                          (let w1 = w\<lparr>db := rows, fs := f1\<rparr>;
                                               w2 = log_failure ''Failed to send notification: '' w1
                                                      (send_upload_notification cfg e w1 user_email
                                                         original mtype upload_id)
                                           in (JsonSuccess
                                                 ''Upload successful! You will receive an email when your upload is reviewed.''
                                                 (Some upload_id), w2))))))))"

text \<open>\<open>admin_panel\<close>: the two lists given to the template.\<close>

definition admin_panel :: "upload_row world \<Rightarrow> upload_row list \<times> upload_row list" where
  "admin_panel w =
     (order_by_desc upload_date (filter (\<lambda>r. status r = Pending) (db w)),
      take 50 (order_by_desc reviewed_date (filter (\<lambda>r. status r \<noteq> Pending) (db w))))"

definition approve_upload :: "config \<Rightarrow> env \<Rightarrow> string \<Rightarrow> upload_row world \<Rightarrow> response \<times> upload_row world" where
  "approve_upload cfg e upload_id w =
     (case fetchone (db w) upload_id of
        None \<Rightarrow> (JsonError ''Upload not found'' 404, w)
      | Some upload \<Rightarrow>
          (if status upload \<noteq> Pending then (JsonError ''Upload already processed'' 400, w)
           else
             (let source_dir = (if media_type upload = ''tv'' then PENDING_TV_PATH cfg
                                else PENDING_MOVIES_PATH cfg);
                  dest_dir = (if media_type upload = ''tv'' then PLEX_TV_PATH cfg
                              else PLEX_MOVIES_PATH cfg);
                  library_name = (if media_type upload = ''tv'' then PLEX_TV_LIBRARY cfg
                                  else PLEX_MOVIES_LIBRARY cfg);
                  source_path = path_join source_dir (filename upload)
              in case mkdir (fs w) dest_dir of
                   Inl ex \<Rightarrow> (server_error, w)
                 | Inr f0 \<Rightarrow>
                     (let dest_path = path_join dest_dir (original_filename upload)
                      in case shutil_move f0 source_path dest_path of
                           Inl ex \<Rightarrow> (JsonError (''Failed to move file: '' @ ex) 500, w)
                         | Inr f1 \<Rightarrow>
                             (let w1 = w\<lparr>db := update_where_id upload_id
                                               (\<lambda>r. r\<lparr>status := Approved,
                                                       reviewed_date := Some (isoformat (now e))\<rparr>) (db w),
                                         fs := f1\<rparr>;
                                  w2 = snd (trigger_plex_scan cfg e w1 library_name);
                                  w3 = log_failure ''Failed to send approval notification: '' w2
                                         (send_approval_notification cfg e w2 (uploader_email upload)
                                            (original_filename upload) (media_type upload))
                              in (JsonSuccess ''Upload approved and added to Plex!'' None, w3))))))"

definition deny_upload :: "config \<Rightarrow> env \<Rightarrow> request \<Rightarrow> string \<Rightarrow> upload_row world \<Rightarrow> response \<times> upload_row world" where
  "deny_upload cfg e req upload_id w =
     (let review_notes = (case form_notes req of None \<Rightarrow> [] | Some n \<Rightarrow> n)
      in case fetchone (db w) upload_id of
           None \<Rightarrow> (JsonError ''Upload not found'' 404, w)
         | Some upload \<Rightarrow>
             (if status upload \<noteq> Pending then (JsonError ''Upload already processed'' 400, w)
              else
                (let source_dir = (if media_type upload = ''tv'' then PENDING_TV_PATH cfg
                                   else PENDING_MOVIES_PATH cfg);
                     source_path = path_join source_dir (filename upload);
                     w0 = (if exists (fs w) source_path
                           then log_failure ''Failed to delete file: '' w
                                  (case os_remove (fs w) source_path of
                                     Inl ex \<Rightarrow> Inl ex | Inr f1 \<Rightarrow> Inr (w\<lparr>fs := f1\<rparr>))
                           else w);
                     w1 = w0\<lparr>db := update_where_id upload_id
                                      (\<lambda>r. r\<lparr>status := Denied,
                                              reviewed_date := Some (isoformat (now e)),
                                              row_notes := Some review_notes\<rparr>) (db w0)\<rparr>;
                     w2 = log_failure ''Failed to send denial notification: '' w1
                            (send_denial_notification cfg e w1 (uploader_email upload)
                               (original_filename upload) review_notes)
                 in (JsonSuccess ''Upload denied and file deleted.'' None, w2))))"

subsection \<open>routes.py\<close>

text \<open>
  routes.py carries its own \<open>Config\<close>, \<open>send_email\<close>, \<open>send_discord_notification\<close> and
  \<open>trigger_plex_scan\<close>; all three catch every exception themselves. Its handlers answer
  with a redirect and a flashed message; it registers no error handler, so an exception
  that nothing catches ends the request with a bare 500.
\<close>

record routes_config =
  SMTP_USER :: string
  SMTP_PASS :: string
  ADMIN_EMAIL :: string
  DISCORD_WEBHOOK :: string
  PLEX_TOKEN_routes :: string

definition PENDING_MOVIES :: path where "PENDING_MOVIES = ''/data/pending/movies''"
definition PENDING_TV :: path where "PENDING_TV = ''/data/pending/tv''"
definition PLEX_MOVIES :: path where "PLEX_MOVIES = ''/data/plex/movies''"
definition PLEX_TV :: path where "PLEX_TV = ''/data/plex/tv''"

datatype page = Redirect string string string | Unhandled exn

definition get_user_email_routes :: "request \<Rightarrow> string" where
  "get_user_email_routes req =
     (case cf_access_email req of None \<Rightarrow> ''anonymous@unknown.com'' | Some cf_email \<Rightarrow> cf_email)"

definition send_email_routes :: "routes_config \<Rightarrow> env \<Rightarrow> 'r world \<Rightarrow> string \<Rightarrow> notice \<Rightarrow> string \<Rightarrow> 'r world" where
  "send_email_routes cfg e w to_email subject fname =
     (if SMTP_USER cfg = [] \<or> SMTP_PASS cfg = [] then w
      else if smtp_up e then w\<lparr>outbox := outbox w @ [Email to_email subject fname]\<rparr>
      else w)"

definition send_discord_notification_routes :: "routes_config \<Rightarrow> env \<Rightarrow> 'r world \<Rightarrow> notice \<Rightarrow> string \<Rightarrow> 'r world" where
  "send_discord_notification_routes cfg e w title fname =
     (if DISCORD_WEBHOOK cfg = [] then w
      else if discord_up e then w\<lparr>outbox := outbox w @ [Discord title fname]\<rparr>
      else w)"

definition trigger_plex_scan_routes :: "routes_config \<Rightarrow> env \<Rightarrow> 'r world \<Rightarrow> 'r world" where
  "trigger_plex_scan_routes cfg e w =
     (if PLEX_TOKEN_routes cfg = [] then w
      else if plex_up e then w\<lparr>outbox := outbox w @ [Plex_refresh ''all'']\<rparr>
      else w)"

text \<open>\<open>INTEGER PRIMARY KEY AUTOINCREMENT\<close>; the application never deletes a row.\<close>

definition next_id :: "routes_row list \<Rightarrow> nat" where
  "next_id rows = Suc (fold max (map row_id rows) 0)"

definition upload ::
  "(string \<Rightarrow> string) \<Rightarrow> routes_config \<Rightarrow> env \<Rightarrow> request \<Rightarrow> routes_row world \<Rightarrow> page \<times> routes_row world" where
  "upload secure_filename cfg e req w =
     (let user_email = get_user_email_routes req;
          mtype = (case form_media_type req of None \<Rightarrow> ''movie'' | Some m \<Rightarrow> m)
      in case req_file req of
           None \<Rightarrow> (Redirect ''index'' ''No file selected'' ''error'', w)
         | Some (file_filename, file_bytes) \<Rightarrow>
             (if file_filename = [] then (Redirect ''index'' ''No file selected'' ''error'', w)
              else
                (let dest_folder = (if mtype = ''tv'' then PENDING_TV else PENDING_MOVIES)
                 in case mkdir (fs w) dest_folder of
                      Inl ex \<Rightarrow> (Unhandled ex, w)
                    | Inr f0 \<Rightarrow>
                        (let original = file_filename;
                             safe_filename = secure_filename original;
                             timestamp = strftime (now e);
                             fname = timestamp @ ''_'' @ safe_filename;
                             filepath = path_join dest_folder fname
                         in case save f0 filepath file_bytes of
                              Inl ex \<Rightarrow> (Unhandled ex, w)
                            | Inr f1 \<Rightarrow>
                                (case getsize f1 filepath of
                                   Inl ex \<Rightarrow> (Unhandled ex, w\<lparr>fs := f1\<rparr>)
                                 | Inr sz \<Rightarrow>
                                     (let w1 = w\<lparr>db := db w @
                                                  [\<lparr>row_id = next_id (db w), filename = fname,
                                                    original_filename = original, media_type = mtype,
                                                    uploader_email = user_email,
                                                    upload_date = CURRENT_TIMESTAMP (now e),
                                                    status = Pending, file_size = sz,
                                                    row_notes = Some (case form_notes req of
                                                                        None \<Rightarrow> [] | Some n \<Rightarrow> n)\<rparr>],
                                                fs := f1\<rparr>;
                                          w2 = send_email_routes cfg e w1 (ADMIN_EMAIL cfg)
                                                 New_upload_pending original;
                                          w3 = send_discord_notification_routes cfg e w2
                                                 New_upload_pending original
                                      in (Redirect ''index''
                                            (''Upload successful! \"'' @ original @ ''\" is pending approval.'')
                                            ''success'', w3)))))))"

definition admin :: "routes_row world \<Rightarrow> routes_row list \<times> routes_row list" where
  "admin w =
     (order_by_desc upload_date (filter (\<lambda>r. status r = Pending) (db w)),
      take 20 (order_by_desc upload_date (filter (\<lambda>r. status r \<noteq> Pending) (db w))))"

definition approve :: "routes_config \<Rightarrow> env \<Rightarrow> nat \<Rightarrow> routes_row world \<Rightarrow> page \<times> routes_row world" where
  "approve cfg e upload_id w =
     (case fetchone (db w) upload_id of
        None \<Rightarrow> (Redirect ''admin'' ''Upload not found'' ''error'', w)
      | Some upl \<Rightarrow>
          (let src_folder = (if media_type upl = ''tv'' then PENDING_TV else PENDING_MOVIES);
               dest_folder = (if media_type upl = ''tv'' then PLEX_TV else PLEX_MOVIES);
               src_path = path_join src_folder (filename upl);
               dest_path = path_join dest_folder (original_filename upl)
           in case mkdir (fs w) dest_folder of
                Inl ex \<Rightarrow> (Redirect ''admin'' (''Error moving file: '' @ ex) ''error'', w)
              | Inr f0 \<Rightarrow>
                  (case shutil_move f0 src_path dest_path of
                     Inl ex \<Rightarrow> (Redirect ''admin'' (''Error moving file: '' @ ex) ''error'', w)
                   | Inr f1 \<Rightarrow>
                       (let w1 = w\<lparr>db := update_where_id upload_id (\<lambda>r. r\<lparr>status := Approved\<rparr>) (db w),
                                   fs := f1\<rparr>;
                            w2 = send_email_routes cfg e w1 (uploader_email upl)
                                   Upload_approved (original_filename upl);
                            w3 = send_discord_notification_routes cfg e w2
                                   Upload_approved (original_filename upl);
                            w4 = trigger_plex_scan_routes cfg e w3
                        in (Redirect ''admin'' (''Approved: '' @ original_filename upl)
                              ''success'', w4)))))"

definition deny :: "routes_config \<Rightarrow> env \<Rightarrow> nat \<Rightarrow> routes_row world \<Rightarrow> page \<times> routes_row world" where
  "deny cfg e upload_id w =
     (case fetchone (db w) upload_id of
        None \<Rightarrow> (Redirect ''admin'' ''Upload not found'' ''error'', w)
      | Some upl \<Rightarrow>
          (let src_folder = (if media_type upl = ''tv'' then PENDING_TV else PENDING_MOVIES);
               src_path = path_join src_folder (filename upl)
           in case (if exists (fs w) src_path then os_remove (fs w) src_path else Inr (fs w)) of
                Inl ex \<Rightarrow> (Redirect ''admin'' (''Error removing file: '' @ ex) ''error'', w)
              | Inr f1 \<Rightarrow>
                  (let w1 = w\<lparr>db := update_where_id upload_id (\<lambda>r. r\<lparr>status := Denied\<rparr>) (db w),
                              fs := f1\<rparr>;
                       w2 = send_email_routes cfg e w1 (uploader_email upl)
                              Upload_denied (original_filename upl);
                       w3 = send_discord_notification_routes cfg e w2
                              Upload_denied (original_filename upl)
                   in (Redirect ''admin'' (''Denied: '' @ original_filename upl) ''success'', w3))))"

subsection \<open>Vocabulary of the properties\<close>

text \<open>The paths a handler computes for a row, and the status the table holds for a key.\<close>

definition pending_path :: "config \<Rightarrow> upload_row \<Rightarrow> path" where
  "pending_path cfg u =
     path_join (if media_type u = ''tv'' then PENDING_TV_PATH cfg else PENDING_MOVIES_PATH cfg)
       (filename u)"

definition published_dir :: "config \<Rightarrow> upload_row \<Rightarrow> path" where
  "published_dir cfg u = (if media_type u = ''tv'' then PLEX_TV_PATH cfg else PLEX_MOVIES_PATH cfg)"

definition published_path :: "config \<Rightarrow> upload_row \<Rightarrow> path" where
  "published_path cfg u = path_join (published_dir cfg u) (original_filename u)"

definition pending_path_routes :: "routes_row \<Rightarrow> path" where
  "pending_path_routes u =
     path_join (if media_type u = ''tv'' then PENDING_TV else PENDING_MOVIES) (filename u)"

definition published_dir_routes :: "routes_row \<Rightarrow> path" where
  "published_dir_routes u = (if media_type u = ''tv'' then PLEX_TV else PLEX_MOVIES)"

definition published_path_routes :: "routes_row \<Rightarrow> path" where
  "published_path_routes u = path_join (published_dir_routes u) (original_filename u)"

definition status_of :: "('i, 'z) row_scheme list \<Rightarrow> 'i \<Rightarrow> status option" where
  "status_of rows i = map_option status (fetchone rows i)"

subsection \<open>Concrete inputs\<close>

definition cfg0 :: config where
  "cfg0 = \<lparr>PENDING_MOVIES_PATH = ''/data/pending/movies'', PENDING_TV_PATH = ''/data/pending/tv'',
           PLEX_MOVIES_PATH = ''/data/plex/movies'', PLEX_TV_PATH = ''/data/plex/tv'',
           ADMIN_EMAILS = [''admin@example.com''], SMTP_USERNAME = ''mailer'',
           SMTP_PASSWORD = ''secret'', EMAIL_ENABLED = True, DISCORD_WEBHOOK_URL = [],
           PLEX_TOKEN = ''token'', PLEX_MOVIES_LIBRARY = ''Movies'',
           PLEX_TV_LIBRARY = ''TV Shows''\<rparr>"

definition rcfg0 :: routes_config where
  "rcfg0 = \<lparr>SMTP_USER = ''mailer'', SMTP_PASS = ''secret'', ADMIN_EMAIL = ''admin@example.com'',
            DISCORD_WEBHOOK = [], PLEX_TOKEN_routes = ''token''\<rparr>"

definition noon :: datetime where
  "noon = \<lparr>year = 2024, month = 1, day = 1, hour = 12, minute = 0, second = 0, microsecond = 0\<rparr>"

definition env0 :: env where
  "env0 = \<lparr>now = noon, uuid4 = ''7c9e6679-7425-40de-944b-e07fc1f90ae7'',
           smtp_up = True, discord_up = True, plex_up = True\<rparr>"

definition no_form :: request where
  "no_form = \<lparr>req_file = None, form_media_type = None, form_notes = None,
              cf_access_email = None, x_user_email = None\<rparr>"

definition movie_row :: upload_row where
  "movie_row = \<lparr>row_id = ''u1'', filename = ''u1_Movie.mkv'', original_filename = ''Movie.mkv'',
                media_type = ''movie'', uploader_email = ''a@x.com'',
                upload_date = ''2024-01-01T10:00:00'', status = Pending, file_size = 5,
                row_notes = None, reviewed_date = None\<rparr>"

definition movie_row_routes :: routes_row where
  "movie_row_routes = \<lparr>row_id = 1, filename = ''20240101_100000_Movie.mkv'',
                original_filename = ''Movie.mkv'',
                media_type = ''movie'', uploader_email = ''a@x.com'',
                upload_date = ''2024-01-01 10:00:00'', status = Pending, file_size = 5,
                row_notes = Some []\<rparr>"

text \<open>One pending upload whose file is not in the pending area.\<close>

definition w_file_missing :: "upload_row world" where
  "w_file_missing = \<lparr>db = [movie_row], fs = \<lparr>files = Map.empty, denied = []\<rparr>,
                     outbox = [], applog = []\<rparr>"

definition rw_file_missing :: "routes_row world" where
  "rw_file_missing = \<lparr>db = [movie_row_routes], fs = \<lparr>files = Map.empty, denied = []\<rparr>,
                      outbox = [], applog = []\<rparr>"

text \<open>One pending upload whose file is there and cannot be deleted.\<close>

definition w_file_locked :: "upload_row world" where
  "w_file_locked =
     \<lparr>db = [movie_row],
      fs = \<lparr>files = [''/data/pending/movies/u1_Movie.mkv'' \<mapsto> ''bytes''],
            denied = [''/data/pending/movies/u1_Movie.mkv'']\<rparr>,
      outbox = [], applog = []\<rparr>"

text \<open>Two pending uploads of the same original name, both files in the pending area.\<close>

definition movie_row2 :: upload_row where
  "movie_row2 = \<lparr>row_id = ''u2'', filename = ''u2_Movie.mkv'', original_filename = ''Movie.mkv'',
                 media_type = ''movie'', uploader_email = ''b@x.com'',
                 upload_date = ''2024-01-02T10:00:00'', status = Pending, file_size = 6,
                 row_notes = None, reviewed_date = None\<rparr>"

definition movie_row2_routes :: routes_row where
  "movie_row2_routes = \<lparr>row_id = 2, filename = ''20240102_100000_Movie.mkv'',
                 original_filename = ''Movie.mkv'',
                 media_type = ''movie'', uploader_email = ''b@x.com'',
                 upload_date = ''2024-01-02 10:00:00'', status = Pending, file_size = 6,
                 row_notes = Some []\<rparr>"

definition w_two_movies :: "upload_row world" where
  "w_two_movies =
     \<lparr>db = [movie_row, movie_row2],
      fs = \<lparr>files = [''/data/pending/movies/u1_Movie.mkv'' \<mapsto> ''first'',
                     ''/data/pending/movies/u2_Movie.mkv'' \<mapsto> ''second''],
            denied = []\<rparr>,
      outbox = [], applog = []\<rparr>"

definition rw_two_movies :: "routes_row world" where
  "rw_two_movies =
     \<lparr>db = [movie_row_routes, movie_row2_routes],
      fs = \<lparr>files = [''/data/pending/movies/20240101_100000_Movie.mkv'' \<mapsto> ''first'',
                     ''/data/pending/movies/20240102_100000_Movie.mkv'' \<mapsto> ''second''],
            denied = []\<rparr>,
      outbox = [], applog = []\<rparr>"

text \<open>routes.py: one pending upload with its file in the pending area.\<close>

definition rw_pending :: "routes_row world" where
  "rw_pending =
     \<lparr>db = [movie_row_routes],
      fs = \<lparr>files = [''/data/pending/movies/20240101_100000_Movie.mkv'' \<mapsto> ''first''],
            denied = []\<rparr>,
      outbox = [], applog = []\<rparr>"

text \<open>Nothing uploaded yet.\<close>

definition rw_empty :: "routes_row world" where
  "rw_empty = \<lparr>db = [], fs = \<lparr>files = Map.empty, denied = []\<rparr>, outbox = [], applog = []\<rparr>"

text \<open>
  werkzeug's \<open>secure_filename\<close> returns a name made of ASCII letters, digits and inner
  dots unchanged; the names submitted below are of that kind.
\<close>

definition plain_name :: "string \<Rightarrow> string" where
  "plain_name s = s"

definition req_txt :: request where
  "req_txt = \<lparr>req_file = Some (''notes.txt'', ''hello''), form_media_type = Some ''movie'',
              form_notes = None, cf_access_email = Some ''a@x.com'', x_user_email = None\<rparr>"

definition req_movie_a :: request where
  "req_movie_a = \<lparr>req_file = Some (''Movie.mkv'', ''first''), form_media_type = Some ''movie'',
              form_notes = None, cf_access_email = Some ''a@x.com'', x_user_email = None\<rparr>"

definition req_movie_b :: request where
  "req_movie_b = \<lparr>req_file = Some (''Movie.mkv'', ''second''), form_media_type = Some ''movie'',
              form_notes = None, cf_access_email = Some ''b@x.com'', x_user_email = None\<rparr>"

text \<open>Two instants within the second 12:00:00, and two later days.\<close>

definition env_early :: env where
  "env_early = env0\<lparr>now := noon\<lparr>microsecond := 100000\<rparr>\<rparr>"

definition env_late :: env where
  "env_late = env0\<lparr>now := noon\<lparr>microsecond := 900000\<rparr>,
                   uuid4 := ''16fd2706-8baf-433b-82eb-8c7fada847da''\<rparr>"

definition env_jan3 :: env where
  "env_jan3 = env0\<lparr>now := noon\<lparr>day := 3\<rparr>\<rparr>"

definition env_jan4 :: env where
  "env_jan4 = env0\<lparr>now := noon\<lparr>day := 4\<rparr>\<rparr>"

section \<open>Properties\<close>

subsection \<open>Lookups, updates and the messages' frame\<close>

lemma fetchone_update_same:
  "(\<And>r. row_id (f r) = row_id r) \<Longrightarrow>
   fetchone (update_where_id i f rows) i = map_option f (fetchone rows i)"
  by (induction rows) (simp_all add: fetchone_def update_where_id_def)

lemma fetchone_update_other:
  "j \<noteq> i \<Longrightarrow> (\<And>r. row_id (f r) = row_id r) \<Longrightarrow>
   fetchone (update_where_id i f rows) j = fetchone rows j"
  by (induction rows) (simp_all add: fetchone_def update_where_id_def)

lemma send_denial_frame:
  "send_denial_notification cfg e w a b c = Inr v \<Longrightarrow> db v = db w \<and> fs v = fs w \<and> applog v = applog w"
  by (auto simp: send_denial_notification_def send_email_def send_discord_notification_def swallow_def
      split: if_splits sum.splits)

lemma send_approval_frame:
  "send_approval_notification cfg e w a b c = Inr v \<Longrightarrow> db v = db w \<and> fs v = fs w \<and> applog v = applog w"
  by (auto simp: send_approval_notification_def send_email_def send_discord_notification_def swallow_def
      split: if_splits sum.splits)

lemma trigger_plex_scan_frame:
  "db (snd (trigger_plex_scan cfg e w l)) = db w"
  "fs (snd (trigger_plex_scan cfg e w l)) = fs w"
  "applog (snd (trigger_plex_scan cfg e w l)) = applog w"
  by (simp_all add: trigger_plex_scan_def)

lemma routes_notify_frame:
  "db (send_email_routes rcfg e w a b c) = db w" "fs (send_email_routes rcfg e w a b c) = fs w"
  "db (send_discord_notification_routes rcfg e w b c) = db w"
  "fs (send_discord_notification_routes rcfg e w b c) = fs w"
  "db (trigger_plex_scan_routes rcfg e w) = db w" "fs (trigger_plex_scan_routes rcfg e w) = fs w"
  by (simp_all add: send_email_routes_def send_discord_notification_routes_def trigger_plex_scan_routes_def)

lemma log_failure_simps:
  "log_failure m w (Inl ex) = w\<lparr>applog := applog w @ [m @ ex]\<rparr>"
  "log_failure m w (Inr v) = v"
  by (simp_all add: log_failure_def)

lemma log_failure_denial:
  "db (log_failure m w (send_denial_notification cfg e w a b c)) = db w"
  "fs (log_failure m w (send_denial_notification cfg e w a b c)) = fs w"
  "x \<in> set (applog w) \<Longrightarrow> x \<in> set (applog (log_failure m w (send_denial_notification cfg e w a b c)))"
  by (auto simp: log_failure_def split: sum.splits dest: send_denial_frame)

lemma log_failure_approval:
  "db (log_failure m w (send_approval_notification cfg e w a b c)) = db w"
  "fs (log_failure m w (send_approval_notification cfg e w a b c)) = fs w"
  by (auto simp: log_failure_def split: sum.splits dest: send_approval_frame)

text \<open>What \<open>deny_upload\<close> does with a pending row, in the vocabulary above.\<close>

lemma deny_upload_pending:
  assumes "fetchone (db w) uid = Some u" "status u = Pending"
  shows "deny_upload cfg e req uid w =
    (JsonSuccess ''Upload denied and file deleted.'' None,
     (let review_notes = (case form_notes req of None \<Rightarrow> [] | Some n \<Rightarrow> n);
          w0 = (if exists (fs w) (pending_path cfg u)
                then log_failure ''Failed to delete file: '' w
                       (case os_remove (fs w) (pending_path cfg u) of
                          Inl ex \<Rightarrow> Inl ex | Inr f1 \<Rightarrow> Inr (w\<lparr>fs := f1\<rparr>))
                else w);
          w1 = w0\<lparr>db := update_where_id uid
                           (\<lambda>r. r\<lparr>status := Denied, reviewed_date := Some (isoformat (now e)),
                                   row_notes := Some review_notes\<rparr>) (db w0)\<rparr>
      in log_failure ''Failed to send denial notification: '' w1
           (send_denial_notification cfg e w1 (uploader_email u) (original_filename u) review_notes)))"
  using assms by (simp add: deny_upload_def pending_path_def Let_def)

lemma deny_found:
  assumes "fetchone (db rw) n = Some ru"
  shows "deny rcfg e n rw =
    (case (if exists (fs rw) (pending_path_routes ru) then os_remove (fs rw) (pending_path_routes ru)
           else Inr (fs rw)) of
       Inl ex \<Rightarrow> (Redirect ''admin'' (''Error removing file: '' @ ex) ''error'', rw)
     | Inr f1 \<Rightarrow>
         (let w1 = rw\<lparr>db := update_where_id n (\<lambda>r. r\<lparr>status := Denied\<rparr>) (db rw), fs := f1\<rparr>;
              w2 = send_email_routes rcfg e w1 (uploader_email ru) Upload_denied (original_filename ru);
              w3 = send_discord_notification_routes rcfg e w2 Upload_denied (original_filename ru)
          in (Redirect ''admin'' (''Denied: '' @ original_filename ru) ''success'', w3)))"
  using assms by (simp add: deny_def pending_path_routes_def Let_def)

text \<open>
  C7. A pending upload whose file is no longer in the pending area can still be denied:
  \<open>deny_upload\<close> (main.py) and \<open>deny\<close> (routes.py) both answer with success and the row
  reads denied afterwards.
\<close>

theorem deny_tolerates_absent_file:
  "(fetchone (db w) uid = Some u \<longrightarrow> status u = Pending \<longrightarrow> \<not> exists (fs w) (pending_path cfg u) \<longrightarrow>
      fst (deny_upload cfg e req uid w) = JsonSuccess ''Upload denied and file deleted.'' None
      \<and> status_of (db (snd (deny_upload cfg e req uid w))) uid = Some Denied)
   \<and> (fetchone (db rw) n = Some ru \<longrightarrow> status ru = Pending \<longrightarrow> \<not> exists (fs rw) (pending_path_routes ru) \<longrightarrow>
      fst (deny rcfg e n rw) = Redirect ''admin'' (''Denied: '' @ original_filename ru) ''success''
      \<and> status_of (db (snd (deny rcfg e n rw))) n = Some Denied)"
proof (intro conjI impI)
  assume a: "fetchone (db w) uid = Some u" "status u = Pending" "\<not> exists (fs w) (pending_path cfg u)"
  show "fst (deny_upload cfg e req uid w) = JsonSuccess ''Upload denied and file deleted.'' None"
    by (simp add: deny_upload_pending [OF a(1,2)])
  show "status_of (db (snd (deny_upload cfg e req uid w))) uid = Some Denied"
    using a by (simp add: deny_upload_pending [OF a(1,2)] Let_def log_failure_denial status_of_def
        fetchone_update_same)
next
  assume b: "fetchone (db rw) n = Some ru" "status ru = Pending" "\<not> exists (fs rw) (pending_path_routes ru)"
  show "fst (deny rcfg e n rw) = Redirect ''admin'' (''Denied: '' @ original_filename ru) ''success''"
    using b by (simp add: deny_found [OF b(1)] Let_def)
  show "status_of (db (snd (deny rcfg e n rw))) n = Some Denied"
    using b by (simp add: deny_found [OF b(1)] Let_def routes_notify_frame status_of_def
        fetchone_update_same)
qed

theorem deny_tolerates_absent_file_witness:
  "fetchone (db w_file_missing) ''u1'' = Some movie_row \<and> status movie_row = Pending
   \<and> \<not> exists (fs w_file_missing) (pending_path cfg0 movie_row)
   \<and> fst (deny_upload cfg0 env0 no_form ''u1'' w_file_missing) = JsonSuccess ''Upload denied and file deleted.'' None
   \<and> status_of (db (snd (deny_upload cfg0 env0 no_form ''u1'' w_file_missing))) ''u1'' = Some Denied
   \<and> fetchone (db rw_file_missing) 1 = Some movie_row_routes \<and> status movie_row_routes = Pending
   \<and> \<not> exists (fs rw_file_missing) (pending_path_routes movie_row_routes)
   \<and> fst (deny rcfg0 env0 1 rw_file_missing) = Redirect ''admin'' (''Denied: '' @ original_filename movie_row_routes) ''success''
   \<and> status_of (db (snd (deny rcfg0 env0 1 rw_file_missing))) 1 = Some Denied"
proof -
  have a: "fetchone (db w_file_missing) ''u1'' = Some movie_row" "status movie_row = Pending"
    "\<not> exists (fs w_file_missing) (pending_path cfg0 movie_row)"
    by (simp_all add: fetchone_def w_file_missing_def movie_row_def exists_def)
  have b: "fetchone (db rw_file_missing) 1 = Some movie_row_routes" "status movie_row_routes = Pending"
    "\<not> exists (fs rw_file_missing) (pending_path_routes movie_row_routes)"
    by (simp_all add: fetchone_def rw_file_missing_def movie_row_routes_def exists_def)
  from a b deny_tolerates_absent_file [of w_file_missing "''u1''" movie_row cfg0 env0 no_form
      rw_file_missing 1 movie_row_routes rcfg0]
  show ?thesis by blast
qed

text \<open>
  C9. \<open>deny_upload\<close> (main.py) on a pending upload always answers with success and
  commits the row to denied. When the pending file exists and deleting it raises, the
  exception is logged and goes no further: the file system is as it was, so the row reads
  denied while its file is still in the pending area.
\<close>

theorem deny_upload_commits_when_delete_fails:
  assumes "fetchone (db w) uid = Some u" "status u = Pending"
  shows "fst (deny_upload cfg e req uid w) = JsonSuccess ''Upload denied and file deleted.'' None
   \<and> status_of (db (snd (deny_upload cfg e req uid w))) uid = Some Denied
   \<and> (exists (fs w) (pending_path cfg u) \<and> os_remove (fs w) (pending_path cfg u) = Inl ex \<longrightarrow>
        fs (snd (deny_upload cfg e req uid w)) = fs w
        \<and> (''Failed to delete file: '' @ ex) \<in> set (applog (snd (deny_upload cfg e req uid w))))"
proof (cases "os_remove (fs w) (pending_path cfg u)")
  case (Inl a)
  then show ?thesis
    using assms
    by (simp add: deny_upload_pending [OF assms] Let_def status_of_def fetchone_update_same
        log_failure_denial log_failure_simps del: append.simps)
next
  case (Inr b)
  then show ?thesis
    using assms
    by (simp add: deny_upload_pending [OF assms] Let_def status_of_def fetchone_update_same
        log_failure_denial log_failure_simps del: append.simps)
qed

theorem deny_upload_commits_when_delete_fails_witness:
  "fetchone (db w_file_locked) ''u1'' = Some movie_row \<and> status movie_row = Pending
   \<and> exists (fs w_file_locked) (pending_path cfg0 movie_row)
   \<and> os_remove (fs w_file_locked) (pending_path cfg0 movie_row) = Inl ''PermissionError''
   \<and> fst (deny_upload cfg0 env0 no_form ''u1'' w_file_locked) = JsonSuccess ''Upload denied and file deleted.'' None
   \<and> status_of (db (snd (deny_upload cfg0 env0 no_form ''u1'' w_file_locked))) ''u1'' = Some Denied
   \<and> files (fs (snd (deny_upload cfg0 env0 no_form ''u1'' w_file_locked))) ''/data/pending/movies/u1_Movie.mkv'' = Some ''bytes''
   \<and> (''Failed to delete file: PermissionError'') \<in> set (applog (snd (deny_upload cfg0 env0 no_form ''u1'' w_file_locked)))"
proof -
  have a: "fetchone (db w_file_locked) ''u1'' = Some movie_row" "status movie_row = Pending"
    by (simp_all add: fetchone_def w_file_locked_def movie_row_def)
  have b: "exists (fs w_file_locked) (pending_path cfg0 movie_row)"
    "os_remove (fs w_file_locked) (pending_path cfg0 movie_row) = Inl ''PermissionError''"
    by (simp_all add: w_file_locked_def movie_row_def exists_def os_remove_def pending_path_def
        path_join_def cfg0_def)
  have c: "files (fs w_file_locked) ''/data/pending/movies/u1_Movie.mkv'' = Some ''bytes''"
    by (simp add: w_file_locked_def)
  from a b c deny_upload_commits_when_delete_fails
    [OF a, where cfg = cfg0 and e = env0 and req = no_form and ex = "''PermissionError''"]
  show ?thesis by simp
qed

text \<open>
  C3. When the destination directory could be made and the move of a pending upload's
  file raises (source missing, destination not writable), \<open>approve_upload\<close> (main.py)
  answers 500 "Failed to move file" and \<open>approve\<close> (routes.py) flashes "Error moving
  file"; neither changes the state, and the row stays pending.
\<close>

theorem approve_move_failure_leaves_pending:
  "(fetchone (db w) uid = Some u \<longrightarrow> status u = Pending \<longrightarrow>
      published_dir cfg u \<notin> set (denied (fs w)) \<longrightarrow>
      shutil_move (fs w) (pending_path cfg u) (published_path cfg u) = Inl ex \<longrightarrow>
        approve_upload cfg e uid w = (JsonError (''Failed to move file: '' @ ex) 500, w)
        \<and> status_of (db (snd (approve_upload cfg e uid w))) uid = Some Pending)
   \<and> (fetchone (db rw) n = Some ru \<longrightarrow> status ru = Pending \<longrightarrow>
      published_dir_routes ru \<notin> set (denied (fs rw)) \<longrightarrow>
      shutil_move (fs rw) (pending_path_routes ru) (published_path_routes ru) = Inl ex' \<longrightarrow>
        approve rcfg e n rw = (Redirect ''admin'' (''Error moving file: '' @ ex') ''error'', rw)
        \<and> status_of (db (snd (approve rcfg e n rw))) n = Some Pending)"
  by (simp add: approve_upload_def approve_def Let_def status_of_def mkdir_def
      pending_path_def published_path_def published_dir_def
      pending_path_routes_def published_path_routes_def published_dir_routes_def)

theorem approve_move_failure_leaves_pending_witness:
  "fetchone (db w_file_missing) ''u1'' = Some movie_row \<and> status movie_row = Pending
   \<and> published_dir cfg0 movie_row \<notin> set (denied (fs w_file_missing))
   \<and> shutil_move (fs w_file_missing) (pending_path cfg0 movie_row) (published_path cfg0 movie_row)
       = Inl ''FileNotFoundError''
   \<and> approve_upload cfg0 env0 ''u1'' w_file_missing
       = (JsonError ''Failed to move file: FileNotFoundError'' 500, w_file_missing)
   \<and> status_of (db (snd (approve_upload cfg0 env0 ''u1'' w_file_missing))) ''u1'' = Some Pending
   \<and> fetchone (db rw_file_missing) 1 = Some movie_row_routes \<and> status movie_row_routes = Pending
   \<and> published_dir_routes movie_row_routes \<notin> set (denied (fs rw_file_missing))
   \<and> shutil_move (fs rw_file_missing) (pending_path_routes movie_row_routes)
        (published_path_routes movie_row_routes) = Inl ''FileNotFoundError''
   \<and> approve rcfg0 env0 1 rw_file_missing
       = (Redirect ''admin'' ''Error moving file: FileNotFoundError'' ''error'', rw_file_missing)
   \<and> status_of (db (snd (approve rcfg0 env0 1 rw_file_missing))) 1 = Some Pending"
proof -
  have a: "fetchone (db w_file_missing) ''u1'' = Some movie_row" "status movie_row = Pending"
    "published_dir cfg0 movie_row \<notin> set (denied (fs w_file_missing))"
    "shutil_move (fs w_file_missing) (pending_path cfg0 movie_row) (published_path cfg0 movie_row)
       = Inl ''FileNotFoundError''"
    by (simp_all add: fetchone_def w_file_missing_def movie_row_def shutil_move_def)
  have b: "fetchone (db rw_file_missing) 1 = Some movie_row_routes" "status movie_row_routes = Pending"
    "published_dir_routes movie_row_routes \<notin> set (denied (fs rw_file_missing))"
    "shutil_move (fs rw_file_missing) (pending_path_routes movie_row_routes)
        (published_path_routes movie_row_routes) = Inl ''FileNotFoundError''"
    by (simp_all add: fetchone_def rw_file_missing_def movie_row_routes_def shutil_move_def)
  from a b approve_move_failure_leaves_pending [of w_file_missing "''u1''" movie_row cfg0
      "''FileNotFoundError''" env0 rw_file_missing 1 movie_row_routes "''FileNotFoundError''" rcfg0]
  show ?thesis by (simp add: status_of_def)
qed

lemma shutil_move_ok:
  "files f src = Some b \<Longrightarrow> src \<notin> set (denied f) \<Longrightarrow> dst \<notin> set (denied f) \<Longrightarrow>
   shutil_move f src dst = Inr (f\<lparr>files := ((files f)(src := None))(dst \<mapsto> b)\<rparr>)"
  by (simp add: shutil_move_def)

text \<open>What the two approve handlers do when the move succeeds.\<close>

lemma approve_upload_success:
  assumes "fetchone (db w) uid = Some u" "status u = Pending"
    "published_dir cfg u \<notin> set (denied (fs w))"
    "shutil_move (fs w) (pending_path cfg u) (published_path cfg u) = Inr f1"
  shows "fst (approve_upload cfg e uid w) = JsonSuccess ''Upload approved and added to Plex!'' None"
    and "db (snd (approve_upload cfg e uid w)) =
           update_where_id uid (\<lambda>r. r\<lparr>status := Approved, reviewed_date := Some (isoformat (now e))\<rparr>) (db w)"
    and "fs (snd (approve_upload cfg e uid w)) = f1"
  using assms
  by (simp_all add: approve_upload_def Let_def mkdir_def pending_path_def published_path_def
      published_dir_def log_failure_approval trigger_plex_scan_frame)

lemma approve_success:
  assumes "fetchone (db rw) n = Some ru"
    "published_dir_routes ru \<notin> set (denied (fs rw))"
    "shutil_move (fs rw) (pending_path_routes ru) (published_path_routes ru) = Inr f1"
  shows "fst (approve rcfg e n rw) = Redirect ''admin'' (''Approved: '' @ original_filename ru) ''success''"
    and "db (snd (approve rcfg e n rw)) = update_where_id n (\<lambda>r. r\<lparr>status := Approved\<rparr>) (db rw)"
    and "fs (snd (approve rcfg e n rw)) = f1"
  using assms
  by (simp_all add: approve_def Let_def mkdir_def pending_path_routes_def published_path_routes_def
      published_dir_routes_def routes_notify_frame)

lemma approve_upload_twice:
  assumes f1: "fetchone (db w) i1 = Some u1" and f2: "fetchone (db w) i2 = Some u2"
    and ne: "i1 \<noteq> i2"
    and p1: "status u1 = Pending" and p2: "status u2 = Pending"
    and same: "original_filename u1 = original_filename u2" "media_type u1 = media_type u2"
    and b1: "files (fs w) (pending_path cfg u1) = Some b1"
    and b2: "files (fs w) (pending_path cfg u2) = Some b2"
    and d1: "pending_path cfg u2 \<noteq> pending_path cfg u1"
    and d2: "pending_path cfg u2 \<noteq> published_path cfg u1"
    and ok: "denied (fs w) = []"
  shows "fst (approve_upload cfg e i1 w) = JsonSuccess ''Upload approved and added to Plex!'' None
    \<and> files (fs (snd (approve_upload cfg e i1 w))) (published_path cfg u1) = Some b1
    \<and> fst (approve_upload cfg e' i2 (snd (approve_upload cfg e i1 w)))
        = JsonSuccess ''Upload approved and added to Plex!'' None
    \<and> files (fs (snd (approve_upload cfg e' i2 (snd (approve_upload cfg e i1 w)))))
        (published_path cfg u1) = Some b2
    \<and> status_of (db (snd (approve_upload cfg e' i2 (snd (approve_upload cfg e i1 w))))) i1 = Some Approved
    \<and> status_of (db (snd (approve_upload cfg e' i2 (snd (approve_upload cfg e i1 w))))) i2 = Some Approved"
proof -
  let ?w1 = "snd (approve_upload cfg e i1 w)"
  let ?w2 = "snd (approve_upload cfg e' i2 ?w1)"
  let ?f1 = "(fs w)\<lparr>files := ((files (fs w))(pending_path cfg u1 := None))(published_path cfg u1 \<mapsto> b1)\<rparr>"
  let ?f2 = "?f1\<lparr>files := ((files ?f1)(pending_path cfg u2 := None))(published_path cfg u2 \<mapsto> b2)\<rparr>"
  have dst: "published_path cfg u2 = published_path cfg u1"
    using same by (simp add: published_path_def published_dir_def)
  have m1: "shutil_move (fs w) (pending_path cfg u1) (published_path cfg u1) = Inr ?f1"
    using b1 ok by (simp add: shutil_move_ok)
  have dir1: "published_dir cfg u1 \<notin> set (denied (fs w))"
    using ok by simp
  note s1 = approve_upload_success [OF f1 p1 dir1 m1, of e]
  have f2': "fetchone (db ?w1) i2 = Some u2"
    using f2 ne by (simp add: s1(2) fetchone_update_other)
  have dir2: "published_dir cfg u2 \<notin> set (denied (fs ?w1))"
    using ok by (simp add: s1(3))
  have m2: "shutil_move (fs ?w1) (pending_path cfg u2) (published_path cfg u2) = Inr ?f2"
    using b2 d1 d2 ok by (simp add: s1(3) shutil_move_ok)
  note s2 = approve_upload_success [OF f2' p2 dir2 m2, of e']
  have st1: "status_of (db ?w2) i1 = Some Approved"
    using f1 ne by (simp add: status_of_def s2(2) s1(2) fetchone_update_other fetchone_update_same)
  have st2: "status_of (db ?w2) i2 = Some Approved"
    using f2' by (simp add: status_of_def s2(2) fetchone_update_same)
  show ?thesis
    using s1(1) s2(1) st1 st2 by (simp add: s1(3) s2(3) dst)
qed

lemma approve_twice:
  assumes f1: "fetchone (db rw) n1 = Some r1" and f2: "fetchone (db rw) n2 = Some r2"
    and ne: "n1 \<noteq> n2"
    and same: "original_filename r1 = original_filename r2" "media_type r1 = media_type r2"
    and b1: "files (fs rw) (pending_path_routes r1) = Some b1"
    and b2: "files (fs rw) (pending_path_routes r2) = Some b2"
    and d1: "pending_path_routes r2 \<noteq> pending_path_routes r1"
    and d2: "pending_path_routes r2 \<noteq> published_path_routes r1"
    and ok: "denied (fs rw) = []"
  shows "fst (approve rcfg e n1 rw) = Redirect ''admin'' (''Approved: '' @ original_filename r1) ''success''
    \<and> files (fs (snd (approve rcfg e n1 rw))) (published_path_routes r1) = Some b1
    \<and> fst (approve rcfg e' n2 (snd (approve rcfg e n1 rw)))
        = Redirect ''admin'' (''Approved: '' @ original_filename r2) ''success''
    \<and> files (fs (snd (approve rcfg e' n2 (snd (approve rcfg e n1 rw))))) (published_path_routes r1) = Some b2
    \<and> status_of (db (snd (approve rcfg e' n2 (snd (approve rcfg e n1 rw))))) n1 = Some Approved
    \<and> status_of (db (snd (approve rcfg e' n2 (snd (approve rcfg e n1 rw))))) n2 = Some Approved"
proof -
  let ?w1 = "snd (approve rcfg e n1 rw)"
  let ?w2 = "snd (approve rcfg e' n2 ?w1)"
  let ?f1 = "(fs rw)\<lparr>files := ((files (fs rw))(pending_path_routes r1 := None))(published_path_routes r1 \<mapsto> b1)\<rparr>"
  let ?f2 = "?f1\<lparr>files := ((files ?f1)(pending_path_routes r2 := None))(published_path_routes r2 \<mapsto> b2)\<rparr>"
  have dst: "published_path_routes r2 = published_path_routes r1"
    using same by (simp add: published_path_routes_def published_dir_routes_def)
  have m1: "shutil_move (fs rw) (pending_path_routes r1) (published_path_routes r1) = Inr ?f1"
    using b1 ok by (simp add: shutil_move_ok)
  have dir1: "published_dir_routes r1 \<notin> set (denied (fs rw))"
    using ok by simp
  note s1 = approve_success [OF f1 dir1 m1, of rcfg e]
  have f2': "fetchone (db ?w1) n2 = Some r2"
    using f2 ne by (simp add: s1(2) fetchone_update_other)
  have dir2: "published_dir_routes r2 \<notin> set (denied (fs ?w1))"
    using ok by (simp add: s1(3))
  have m2: "shutil_move (fs ?w1) (pending_path_routes r2) (published_path_routes r2) = Inr ?f2"
    using b2 d1 d2 ok by (simp add: s1(3) shutil_move_ok)
  note s2 = approve_success [OF f2' dir2 m2, of rcfg e']
  have st1: "status_of (db ?w2) n1 = Some Approved"
    using f1 ne by (simp add: status_of_def s2(2) s1(2) fetchone_update_other fetchone_update_same)
  have st2: "status_of (db ?w2) n2 = Some Approved"
    using f2' by (simp add: status_of_def s2(2) fetchone_update_same)
  show ?thesis
    using s1(1) s2(1) st1 st2 by (simp add: s1(3) s2(3) dst)
qed

text \<open>
  C10. The published name is \<open>original_filename\<close>, with no token. Take two distinct
  pending uploads with the same original name and media type, both files in the pending
  area and nothing refused by the file system. Approving the first publishes its bytes;
  approving the second also answers with success and the published file then holds the
  second upload's bytes, while both rows read approved. This holds for
  \<open>approve_upload\<close> (main.py) and for \<open>approve\<close> (routes.py).
\<close>

theorem approve_overwrites_same_original_name:
  "(fetchone (db w) i1 = Some u1 \<and> fetchone (db w) i2 = Some u2 \<and> i1 \<noteq> i2
      \<and> status u1 = Pending \<and> status u2 = Pending
      \<and> original_filename u1 = original_filename u2 \<and> media_type u1 = media_type u2
      \<and> files (fs w) (pending_path cfg u1) = Some b1
      \<and> files (fs w) (pending_path cfg u2) = Some b2
      \<and> pending_path cfg u2 \<noteq> pending_path cfg u1
      \<and> pending_path cfg u2 \<noteq> published_path cfg u1
      \<and> denied (fs w) = []
    \<longrightarrow>
      fst (approve_upload cfg e i1 w) = JsonSuccess ''Upload approved and added to Plex!'' None
      \<and> files (fs (snd (approve_upload cfg e i1 w))) (published_path cfg u1) = Some b1
      \<and> fst (approve_upload cfg e' i2 (snd (approve_upload cfg e i1 w)))
          = JsonSuccess ''Upload approved and added to Plex!'' None
      \<and> files (fs (snd (approve_upload cfg e' i2 (snd (approve_upload cfg e i1 w)))))
          (published_path cfg u1) = Some b2
      \<and> status_of (db (snd (approve_upload cfg e' i2 (snd (approve_upload cfg e i1 w))))) i1
          = Some Approved
      \<and> status_of (db (snd (approve_upload cfg e' i2 (snd (approve_upload cfg e i1 w))))) i2
          = Some Approved)
   \<and> (fetchone (db rw) n1 = Some r1 \<and> fetchone (db rw) n2 = Some r2 \<and> n1 \<noteq> n2
      \<and> original_filename r1 = original_filename r2 \<and> media_type r1 = media_type r2
      \<and> files (fs rw) (pending_path_routes r1) = Some c1
      \<and> files (fs rw) (pending_path_routes r2) = Some c2
      \<and> pending_path_routes r2 \<noteq> pending_path_routes r1
      \<and> pending_path_routes r2 \<noteq> published_path_routes r1
      \<and> denied (fs rw) = []
    \<longrightarrow>
      fst (approve rcfg e n1 rw) = Redirect ''admin'' (''Approved: '' @ original_filename r1) ''success''
      \<and> files (fs (snd (approve rcfg e n1 rw))) (published_path_routes r1) = Some c1
      \<and> fst (approve rcfg e' n2 (snd (approve rcfg e n1 rw)))
          = Redirect ''admin'' (''Approved: '' @ original_filename r2) ''success''
      \<and> files (fs (snd (approve rcfg e' n2 (snd (approve rcfg e n1 rw)))))
          (published_path_routes r1) = Some c2
      \<and> status_of (db (snd (approve rcfg e' n2 (snd (approve rcfg e n1 rw))))) n1 = Some Approved
      \<and> status_of (db (snd (approve rcfg e' n2 (snd (approve rcfg e n1 rw))))) n2 = Some Approved)"
proof (rule conjI, goal_cases)
  case 1
  show ?case
    by (intro impI, elim conjE, rule approve_upload_twice)
next
  case 2
  show ?case
    by (intro impI, elim conjE, rule approve_twice)
qed

theorem approve_overwrites_same_original_name_witness:
  "fetchone (db w_two_movies) ''u1'' = Some movie_row
   \<and> fetchone (db w_two_movies) ''u2'' = Some movie_row2 \<and> ''u1'' \<noteq> ''u2''
   \<and> status movie_row = Pending \<and> status movie_row2 = Pending
   \<and> original_filename movie_row = original_filename movie_row2
   \<and> media_type movie_row = media_type movie_row2
   \<and> files (fs w_two_movies) (pending_path cfg0 movie_row) = Some ''first''
   \<and> files (fs w_two_movies) (pending_path cfg0 movie_row2) = Some ''second''
   \<and> pending_path cfg0 movie_row2 \<noteq> pending_path cfg0 movie_row
   \<and> pending_path cfg0 movie_row2 \<noteq> published_path cfg0 movie_row
   \<and> denied (fs w_two_movies) = []
   \<and> published_path cfg0 movie_row = ''/data/plex/movies/Movie.mkv''
   \<and> files (fs (snd (approve_upload cfg0 env0 ''u1'' w_two_movies))) ''/data/plex/movies/Movie.mkv''
       = Some ''first''
   \<and> fst (approve_upload cfg0 env0 ''u2'' (snd (approve_upload cfg0 env0 ''u1'' w_two_movies)))
       = JsonSuccess ''Upload approved and added to Plex!'' None
   \<and> files (fs (snd (approve_upload cfg0 env0 ''u2'' (snd (approve_upload cfg0 env0 ''u1'' w_two_movies)))))
        ''/data/plex/movies/Movie.mkv'' = Some ''second''
   \<and> fetchone (db rw_two_movies) 1 = Some movie_row_routes
   \<and> fetchone (db rw_two_movies) 2 = Some movie_row2_routes
   \<and> original_filename movie_row_routes = original_filename movie_row2_routes
   \<and> media_type movie_row_routes = media_type movie_row2_routes
   \<and> files (fs rw_two_movies) (pending_path_routes movie_row_routes) = Some ''first''
   \<and> files (fs rw_two_movies) (pending_path_routes movie_row2_routes) = Some ''second''
   \<and> pending_path_routes movie_row2_routes \<noteq> pending_path_routes movie_row_routes
   \<and> pending_path_routes movie_row2_routes \<noteq> published_path_routes movie_row_routes
   \<and> denied (fs rw_two_movies) = []
   \<and> published_path_routes movie_row_routes = ''/data/plex/movies/Movie.mkv''
   \<and> files (fs (snd (approve rcfg0 env0 1 rw_two_movies))) ''/data/plex/movies/Movie.mkv''
       = Some ''first''
   \<and> fst (approve rcfg0 env0 2 (snd (approve rcfg0 env0 1 rw_two_movies)))
       = Redirect ''admin'' ''Approved: Movie.mkv'' ''success''
   \<and> files (fs (snd (approve rcfg0 env0 2 (snd (approve rcfg0 env0 1 rw_two_movies)))))
        ''/data/plex/movies/Movie.mkv'' = Some ''second''"
proof -
  have a: "fetchone (db w_two_movies) ''u1'' = Some movie_row
     \<and> fetchone (db w_two_movies) ''u2'' = Some movie_row2 \<and> ''u1'' \<noteq> ''u2''
     \<and> status movie_row = Pending \<and> status movie_row2 = Pending
     \<and> original_filename movie_row = original_filename movie_row2
     \<and> media_type movie_row = media_type movie_row2
     \<and> files (fs w_two_movies) (pending_path cfg0 movie_row) = Some ''first''
     \<and> files (fs w_two_movies) (pending_path cfg0 movie_row2) = Some ''second''
     \<and> pending_path cfg0 movie_row2 \<noteq> pending_path cfg0 movie_row
     \<and> pending_path cfg0 movie_row2 \<noteq> published_path cfg0 movie_row
     \<and> denied (fs w_two_movies) = []"
    by (simp add: fetchone_def w_two_movies_def movie_row_def movie_row2_def pending_path_def
        published_path_def published_dir_def path_join_def cfg0_def)
  have b: "fetchone (db rw_two_movies) 1 = Some movie_row_routes
     \<and> fetchone (db rw_two_movies) 2 = Some movie_row2_routes \<and> (1::nat) \<noteq> 2
     \<and> original_filename movie_row_routes = original_filename movie_row2_routes
     \<and> media_type movie_row_routes = media_type movie_row2_routes
     \<and> files (fs rw_two_movies) (pending_path_routes movie_row_routes) = Some ''first''
     \<and> files (fs rw_two_movies) (pending_path_routes movie_row2_routes) = Some ''second''
     \<and> pending_path_routes movie_row2_routes \<noteq> pending_path_routes movie_row_routes
     \<and> pending_path_routes movie_row2_routes \<noteq> published_path_routes movie_row_routes
     \<and> denied (fs rw_two_movies) = []"
    by (simp add: fetchone_def rw_two_movies_def movie_row_routes_def movie_row2_routes_def
        pending_path_routes_def published_path_routes_def published_dir_routes_def path_join_def
        PENDING_MOVIES_def PLEX_MOVIES_def)
  have p: "published_path cfg0 movie_row = ''/data/plex/movies/Movie.mkv''"
    "published_path_routes movie_row_routes = ''/data/plex/movies/Movie.mkv''"
    "original_filename movie_row2_routes = ''Movie.mkv''"
    by (simp_all add: published_path_def published_dir_def published_path_routes_def
        published_dir_routes_def path_join_def cfg0_def movie_row_def movie_row_routes_def
        movie_row2_routes_def PLEX_MOVIES_def)
  from approve_overwrites_same_original_name
    [where w = w_two_movies and ?i1.0 = "''u1''" and ?i2.0 = "''u2''" and ?u1.0 = movie_row
       and ?u2.0 = movie_row2 and cfg = cfg0 and ?b1.0 = "''first''" and ?b2.0 = "''second''"
       and e = env0 and e' = env0 and rw = rw_two_movies and ?n1.0 = 1 and ?n2.0 = 2
       and ?r1.0 = movie_row_routes and ?r2.0 = movie_row2_routes and ?c1.0 = "''first''"
       and ?c2.0 = "''second''" and rcfg = rcfg0]
    a b
  have "files (fs (snd (approve_upload cfg0 env0 ''u1'' w_two_movies))) (published_path cfg0 movie_row)
         = Some ''first''
     \<and> fst (approve_upload cfg0 env0 ''u2'' (snd (approve_upload cfg0 env0 ''u1'' w_two_movies)))
         = JsonSuccess ''Upload approved and added to Plex!'' None
     \<and> files (fs (snd (approve_upload cfg0 env0 ''u2'' (snd (approve_upload cfg0 env0 ''u1'' w_two_movies)))))
          (published_path cfg0 movie_row) = Some ''second''
     \<and> files (fs (snd (approve rcfg0 env0 1 rw_two_movies))) (published_path_routes movie_row_routes)
         = Some ''first''
     \<and> fst (approve rcfg0 env0 2 (snd (approve rcfg0 env0 1 rw_two_movies)))
         = Redirect ''admin'' (''Approved: '' @ original_filename movie_row2_routes) ''success''
     \<and> files (fs (snd (approve rcfg0 env0 2 (snd (approve rcfg0 env0 1 rw_two_movies)))))
          (published_path_routes movie_row_routes) = Some ''second''"
    by blast
  with a b p show ?thesis by simp
qed

subsection \<open>routes.py at concrete inputs\<close>

text \<open>
  C1, on routes.py. \<open>deny\<close> has no check of the status. Denying a pending upload and
  then denying the same id once more: the second call answers "Denied" with success
  again, runs the \<open>UPDATE\<close> again and sends the denial e-mail a second time.
\<close>

theorem routes_deny_twice_notifies_twice:
  "fst (deny rcfg0 env0 1 rw_pending) = Redirect ''admin'' ''Denied: Movie.mkv'' ''success''
   \<and> status_of (db (snd (deny rcfg0 env0 1 rw_pending))) 1 = Some Denied
   \<and> fst (deny rcfg0 env0 1 (snd (deny rcfg0 env0 1 rw_pending)))
       = Redirect ''admin'' ''Denied: Movie.mkv'' ''success''
   \<and> outbox (snd (deny rcfg0 env0 1 (snd (deny rcfg0 env0 1 rw_pending))))
       = [Email ''a@x.com'' Upload_denied ''Movie.mkv'', Email ''a@x.com'' Upload_denied ''Movie.mkv'']"
  by (simp add: deny_def rw_pending_def movie_row_routes_def rcfg0_def env0_def fetchone_def
      update_where_id_def status_of_def exists_def os_remove_def path_join_def PENDING_MOVIES_def
      send_email_routes_def send_discord_notification_routes_def Let_def)

text \<open>
  C2, on routes.py. An upload is approved and then denied: the second call is accepted
  and the row goes from approved to denied.
\<close>

theorem routes_deny_after_approve:
  "status_of (db rw_pending) 1 = Some Pending
   \<and> fst (approve rcfg0 env0 1 rw_pending) = Redirect ''admin'' ''Approved: Movie.mkv'' ''success''
   \<and> status_of (db (snd (approve rcfg0 env0 1 rw_pending))) 1 = Some Approved
   \<and> fst (deny rcfg0 env_jan3 1 (snd (approve rcfg0 env0 1 rw_pending)))
       = Redirect ''admin'' ''Denied: Movie.mkv'' ''success''
   \<and> status_of (db (snd (deny rcfg0 env_jan3 1 (snd (approve rcfg0 env0 1 rw_pending))))) 1
       = Some Denied"
  by (simp add: deny_def approve_def rw_pending_def movie_row_routes_def rcfg0_def env0_def
      env_jan3_def fetchone_def mkdir_def shutil_move_def
      update_where_id_def status_of_def exists_def os_remove_def path_join_def PENDING_MOVIES_def
      PLEX_MOVIES_def send_email_routes_def send_discord_notification_routes_def
      trigger_plex_scan_routes_def Let_def)

lemma noon_stamp:
  "strftime noon = ''20240101_120000''" "CURRENT_TIMESTAMP noon = ''2024-01-01 12:00:00''"
  "isoformat noon = ''2024-01-01T12:00:00''"
  by (simp_all add: strftime_def CURRENT_TIMESTAMP_def isoformat_def noon_def pad2_def pad4_def digit_def)

text \<open>
  C4, on routes.py. \<open>upload\<close> has no check of the extension: \<open>notes.txt\<close>, which
  \<open>allowed_file\<close> of main.py refuses, is written to the pending area and gets a pending
  row.
\<close>

theorem routes_upload_accepts_txt:
  "\<not> allowed_file ''notes.txt''
   \<and> fst (upload plain_name rcfg0 env0 req_txt rw_empty)
       = Redirect ''index'' ''Upload successful! \"notes.txt\" is pending approval.'' ''success''
   \<and> files (fs (snd (upload plain_name rcfg0 env0 req_txt rw_empty)))
         ''/data/pending/movies/20240101_120000_notes.txt'' = Some ''hello''
   \<and> map original_filename (db (snd (upload plain_name rcfg0 env0 req_txt rw_empty))) = [''notes.txt'']
   \<and> map status (db (snd (upload plain_name rcfg0 env0 req_txt rw_empty))) = [Pending]"
  by (simp add: allowed_file_def rsplit_dot_last_def lower_def lower_char_def allowed_extensions_def
      upload_def req_txt_def rw_empty_def rcfg0_def env0_def plain_name_def noon_stamp
      get_user_email_routes_def mkdir_def save_def getsize_def path_join_def PENDING_MOVIES_def
      next_id_def send_email_routes_def send_discord_notification_routes_def Let_def)

lemma same_second_stamp:
  "strftime (now env_early) = ''20240101_120000''" "strftime (now env_late) = ''20240101_120000''"
  "CURRENT_TIMESTAMP (now env_early) = ''2024-01-01 12:00:00''"
  "CURRENT_TIMESTAMP (now env_late) = ''2024-01-01 12:00:00''"
  by (simp_all add: strftime_def CURRENT_TIMESTAMP_def env_early_def env_late_def env0_def noon_def
      pad2_def pad4_def digit_def)

text \<open>
  C5, on routes.py. The stored name is the original name behind a timestamp of one
  second's resolution. Two uploads of \<open>Movie.mkv\<close> at different instants of the same
  second get the same stored name: the second file replaces the first in the pending
  area, and two rows name the one file.
\<close>

theorem routes_upload_same_second_collides:
  "now env_early \<noteq> now env_late
   \<and> map row_id (db (snd (upload plain_name rcfg0 env_late req_movie_b
         (snd (upload plain_name rcfg0 env_early req_movie_a rw_empty))))) = [1, 2]
   \<and> map filename (db (snd (upload plain_name rcfg0 env_late req_movie_b
         (snd (upload plain_name rcfg0 env_early req_movie_a rw_empty)))))
       = [''20240101_120000_Movie.mkv'', ''20240101_120000_Movie.mkv'']
   \<and> files (fs (snd (upload plain_name rcfg0 env_early req_movie_a rw_empty)))
         ''/data/pending/movies/20240101_120000_Movie.mkv'' = Some ''first''
   \<and> files (fs (snd (upload plain_name rcfg0 env_late req_movie_b
         (snd (upload plain_name rcfg0 env_early req_movie_a rw_empty)))))
         ''/data/pending/movies/20240101_120000_Movie.mkv'' = Some ''second''"
  by (simp add: upload_def req_movie_a_def req_movie_b_def rw_empty_def rcfg0_def plain_name_def
      same_second_stamp get_user_email_routes_def mkdir_def save_def getsize_def path_join_def
      PENDING_MOVIES_def next_id_def send_email_routes_def send_discord_notification_routes_def
      Let_def)
     (simp add: env_early_def env_late_def env0_def noon_def)

text \<open>
  C6, on routes.py. The table has no column for the time of review and the \<open>UPDATE\<close>
  of \<open>approve\<close> sets \<open>status\<close> alone: the row after approval is the row before with
  the status changed, whatever the clock says.
\<close>

theorem routes_approve_records_no_review_time:
  "fetchone (db rw_pending) 1 = Some movie_row_routes
   \<and> fst (approve rcfg0 env_jan3 1 rw_pending) = Redirect ''admin'' ''Approved: Movie.mkv'' ''success''
   \<and> db (snd (approve rcfg0 env_jan3 1 rw_pending)) = [movie_row_routes\<lparr>status := Approved\<rparr>]
   \<and> db (snd (approve rcfg0 env_jan4 1 rw_pending)) = db (snd (approve rcfg0 env_jan3 1 rw_pending))"
  by (simp add: approve_def rw_pending_def movie_row_routes_def rcfg0_def env0_def
      env_jan3_def env_jan4_def fetchone_def mkdir_def shutil_move_def
      update_where_id_def path_join_def PENDING_MOVIES_def
      PLEX_MOVIES_def send_email_routes_def send_discord_notification_routes_def
      trigger_plex_scan_routes_def Let_def)

text \<open>
  C8, on routes.py. \<open>admin\<close> orders the processed uploads by \<open>upload_date\<close>. Upload 1
  was submitted on 1 January and upload 2 on 2 January; 2 is approved on 3 January and 1
  on 4 January. The list of processed uploads is 2, 1: the upload reviewed last comes
  last.
\<close>

theorem routes_admin_orders_processed_by_upload_date:
  "map row_id (snd (admin (snd (approve rcfg0 env_jan4 1 (snd (approve rcfg0 env_jan3 2 rw_two_movies))))))
     = [2, 1]
   \<and> map status (snd (admin (snd (approve rcfg0 env_jan4 1 (snd (approve rcfg0 env_jan3 2 rw_two_movies))))))
     = [Approved, Approved]
   \<and> map upload_date (snd (admin (snd (approve rcfg0 env_jan4 1 (snd (approve rcfg0 env_jan3 2 rw_two_movies))))))
     = [''2024-01-02 10:00:00'', ''2024-01-01 10:00:00'']"
  by (simp add: admin_def order_by_desc_def approve_def rw_two_movies_def movie_row_routes_def
      movie_row2_routes_def rcfg0_def env0_def
      env_jan3_def env_jan4_def fetchone_def mkdir_def shutil_move_def
      update_where_id_def path_join_def PENDING_MOVIES_def
      PLEX_MOVIES_def send_email_routes_def send_discord_notification_routes_def
      trigger_plex_scan_routes_def Let_def)

subsection \<open>main.py: the guard, and what the handlers leave alone\<close>

lemma approve_upload_already_reviewed:
  "fetchone (db w) uid = Some u \<Longrightarrow> status u \<noteq> Pending \<Longrightarrow>
   approve_upload cfg e uid w = (JsonError ''Upload already processed'' 400, w)"
  by (simp add: approve_upload_def)

lemma deny_upload_already_reviewed:
  "fetchone (db w) uid = Some u \<Longrightarrow> status u \<noteq> Pending \<Longrightarrow>
   deny_upload cfg e req uid w = (JsonError ''Upload already processed'' 400, w)"
  by (simp add: deny_upload_def)

lemma approve_upload_move_failed:
  "fetchone (db w) uid = Some u \<Longrightarrow> status u = Pending \<Longrightarrow>
   published_dir cfg u \<notin> set (denied (fs w)) \<Longrightarrow>
   shutil_move (fs w) (pending_path cfg u) (published_path cfg u) = Inl ex \<Longrightarrow>
   approve_upload cfg e uid w = (JsonError (''Failed to move file: '' @ ex) 500, w)"
  by (simp add: approve_upload_def Let_def mkdir_def pending_path_def published_path_def
      published_dir_def)

lemma approve_upload_db:
  "db (snd (approve_upload cfg e uid w)) = db w
   \<or> (\<exists>u. fetchone (db w) uid = Some u \<and> status u = Pending
        \<and> db (snd (approve_upload cfg e uid w)) =
            update_where_id uid
              (\<lambda>r. r\<lparr>status := Approved, reviewed_date := Some (isoformat (now e))\<rparr>) (db w))"
proof (cases "fetchone (db w) uid")
  case None
  then show ?thesis by (simp add: approve_upload_def)
next
  case (Some u)
  show ?thesis
  proof (cases "status u = Pending")
    case False
    with Some show ?thesis by (simp add: approve_upload_def)
  next
    case True
    show ?thesis
    proof (cases "published_dir cfg u \<in> set (denied (fs w))")
      case d: True
      with Some True show ?thesis
        by (simp add: approve_upload_def Let_def mkdir_def published_dir_def)
    next
      case d: False
      show ?thesis
      proof (cases "shutil_move (fs w) (pending_path cfg u) (published_path cfg u)")
        case (Inl ex)
        from approve_upload_move_failed [OF Some True d Inl] show ?thesis by simp
      next
        case (Inr f1)
        from approve_upload_success(2) [OF Some True d Inr] Some True
        show ?thesis by simp
      qed
    qed
  qed
qed

lemma approve_upload_keeps_reviewed:
  assumes "fetchone (db w) i = Some r" "status r \<noteq> Pending"
  shows "fetchone (db (snd (approve_upload cfg e uid w))) i = Some r"
proof -
  from approve_upload_db [of cfg e uid w] show ?thesis
  proof (elim disjE exE conjE)
    assume "db (snd (approve_upload cfg e uid w)) = db w"
    with assms show ?thesis by simp
  next
    fix u
    assume u: "fetchone (db w) uid = Some u" "status u = Pending"
      and d: "db (snd (approve_upload cfg e uid w)) =
            update_where_id uid
              (\<lambda>r. r\<lparr>status := Approved, reviewed_date := Some (isoformat (now e))\<rparr>) (db w)"
    from u assms have "i \<noteq> uid" by auto
    with assms show ?thesis by (simp add: d fetchone_update_other)
  qed
qed

lemma log_failure_remove:
  "db (log_failure m w (case os_remove (fs w) p of Inl ex \<Rightarrow> Inl ex | Inr f1 \<Rightarrow> Inr (w\<lparr>fs := f1\<rparr>))) = db w"
  by (simp add: log_failure_def split: sum.splits)

lemma deny_upload_db:
  "db (snd (deny_upload cfg e req uid w)) = db w
   \<or> (\<exists>u. fetchone (db w) uid = Some u \<and> status u = Pending
        \<and> db (snd (deny_upload cfg e req uid w)) =
            update_where_id uid
              (\<lambda>r. r\<lparr>status := Denied, reviewed_date := Some (isoformat (now e)),
                      row_notes := Some (case form_notes req of None \<Rightarrow> [] | Some n \<Rightarrow> n)\<rparr>) (db w))"
proof (cases "fetchone (db w) uid")
  case None
  then show ?thesis by (simp add: deny_upload_def)
next
  case (Some u)
  show ?thesis
  proof (cases "status u = Pending")
    case False
    with Some show ?thesis by (simp add: deny_upload_def)
  next
    case True
    with Some show ?thesis
      by (simp add: deny_upload_pending [OF Some True] Let_def log_failure_denial log_failure_remove)
  qed
qed

lemma deny_upload_keeps_reviewed:
  assumes "fetchone (db w) i = Some r" "status r \<noteq> Pending"
  shows "fetchone (db (snd (deny_upload cfg e req uid w))) i = Some r"
proof -
  from deny_upload_db [of cfg e req uid w] show ?thesis
  proof (elim disjE exE conjE)
    assume "db (snd (deny_upload cfg e req uid w)) = db w"
    with assms show ?thesis by simp
  next
    fix u
    assume u: "fetchone (db w) uid = Some u" "status u = Pending"
      and d: "db (snd (deny_upload cfg e req uid w)) =
            update_where_id uid
              (\<lambda>r. r\<lparr>status := Denied, reviewed_date := Some (isoformat (now e)),
                      row_notes := Some (case form_notes req of None \<Rightarrow> [] | Some n \<Rightarrow> n)\<rparr>) (db w)"
    from u assms have "i \<noteq> uid" by auto
    with assms show ?thesis by (simp add: d fetchone_update_other)
  qed
qed

text \<open>On a pending row the two review handlers of main.py write status and review time in one update.\<close>

lemma approve_upload_sets_both:
  assumes "fetchone (db w) uid = Some u" "status u = Pending"
    "fst (approve_upload cfg e uid w) = JsonSuccess m i"
  shows "fetchone (db (snd (approve_upload cfg e uid w))) uid
         = Some (u\<lparr>status := Approved, reviewed_date := Some (isoformat (now e))\<rparr>)"
proof -
  have d: "published_dir cfg u \<notin> set (denied (fs w))"
    using assms by (auto simp: approve_upload_def Let_def mkdir_def published_dir_def server_error_def)
  obtain f1 where m: "shutil_move (fs w) (pending_path cfg u) (published_path cfg u) = Inr f1"
    using assms approve_upload_move_failed [OF assms(1,2) d, of _ e]
    by (cases "shutil_move (fs w) (pending_path cfg u) (published_path cfg u)") auto
  show ?thesis
    using assms(1) by (simp add: approve_upload_success(2) [OF assms(1,2) d m] fetchone_update_same)
qed

lemma deny_upload_sets_both:
  assumes "fetchone (db w) uid = Some u" "status u = Pending"
  shows "fetchone (db (snd (deny_upload cfg e req uid w))) uid
         = Some (u\<lparr>status := Denied, reviewed_date := Some (isoformat (now e)),
                    row_notes := Some (case form_notes req of None \<Rightarrow> [] | Some n \<Rightarrow> n)\<rparr>)"
  using assms
  by (simp add: deny_upload_pending [OF assms] Let_def log_failure_denial log_failure_remove
      fetchone_update_same)

subsection \<open>main.py: submission\<close>

lemma fold_send_email_frame:
  "db (fold (\<lambda>a v. swallow v (send_email cfg e v a n f)) xs w) = db w
   \<and> fs (fold (\<lambda>a v. swallow v (send_email cfg e v a n f)) xs w) = fs w
   \<and> applog (fold (\<lambda>a v. swallow v (send_email cfg e v a n f)) xs w) = applog w"
proof (induction xs arbitrary: w)
  case Nil
  show ?case by simp
next
  case (Cons a xs)
  have "db (swallow w (send_email cfg e w a n f)) = db w
      \<and> fs (swallow w (send_email cfg e w a n f)) = fs w
      \<and> applog (swallow w (send_email cfg e w a n f)) = applog w"
    by (simp add: swallow_def send_email_def)
  with Cons.IH [of "swallow w (send_email cfg e w a n f)"] show ?case by simp
qed

lemma send_upload_notification_frame:
  "send_upload_notification cfg e w a b c d = Inr v \<Longrightarrow>
   db v = db w \<and> fs v = fs w \<and> applog v = applog w"
  using fold_send_email_frame [of cfg e New_upload_pending b "ADMIN_EMAILS cfg"
      "swallow w (send_email cfg e w a Upload_received b)"]
  by (auto simp: send_upload_notification_def Let_def swallow_def send_email_def
      send_discord_notification_def split: if_splits)

lemma log_failure_upload:
  "db (log_failure m w (send_upload_notification cfg e w a b c d)) = db w"
  "fs (log_failure m w (send_upload_notification cfg e w a b c d)) = fs w"
  by (auto simp: log_failure_def split: sum.splits dest: send_upload_notification_frame)

lemma upload_file_rejects_extension:
  "req_file req = Some (name, bytes) \<Longrightarrow> \<not> allowed_file name \<Longrightarrow>
   upload_file sec cfg e req w =
     (if name = [] then JsonError ''No file selected'' 400
      else JsonError ''File type not allowed. Please upload video files only.'' 400, w)"
  by (simp add: upload_file_def Let_def)

text \<open>
  \<open>upload_file\<close> either leaves the table as it is, or appends one pending row under a
  key that was free, after the bytes were saved under the stored name.
\<close>

lemma upload_file_db:
  "db (snd (upload_file sec cfg e req w)) = db w
   \<or> (\<exists>name bytes row.
         req_file req = Some (name, bytes) \<and> allowed_file name
         \<and> uuid4 e \<notin> row_id ` set (db w)
         \<and> db (snd (upload_file sec cfg e req w)) = db w @ [row]
         \<and> row_id row = uuid4 e \<and> filename row = uuid4 e @ ''_'' @ sec name
         \<and> original_filename row = name \<and> status row = Pending \<and> reviewed_date row = None
         \<and> files (fs (snd (upload_file sec cfg e req w)))
              (path_join (if (case form_media_type req of None \<Rightarrow> ''movie'' | Some m \<Rightarrow> m) = ''tv''
                          then PENDING_TV_PATH cfg else PENDING_MOVIES_PATH cfg)
                 (uuid4 e @ ''_'' @ sec name)) = Some bytes)"
proof (cases "req_file req")
  case None
  then show ?thesis by (simp add: upload_file_def)
next
  case (Some nb)
  obtain name bytes where nb: "nb = (name, bytes)" by (cases nb)
  let ?mtype = "case form_media_type req of None \<Rightarrow> ''movie'' | Some m \<Rightarrow> m"
  let ?dir = "if ?mtype = ''tv'' then PENDING_TV_PATH cfg else PENDING_MOVIES_PATH cfg"
  let ?p = "path_join ?dir (uuid4 e @ ''_'' @ sec name)"
  show ?thesis
  proof (cases "name = [] \<or> \<not> allowed_file name \<or> ?dir \<in> set (denied (fs w))
                \<or> ?p \<in> set (denied (fs w)) \<or> uuid4 e \<in> row_id ` set (db w)")
    case True
    then show ?thesis
      using Some nb
      by (auto simp: upload_file_def Let_def mkdir_def save_def getsize_def insert_row_def)
  next
    case False
    then show ?thesis
      using Some nb
      by (simp add: upload_file_def Let_def mkdir_def save_def getsize_def insert_row_def
          log_failure_upload)
  qed
qed

lemma fetchone_append:
  "fetchone rows i = Some r \<Longrightarrow> fetchone (rows @ more_rows) i = Some r"
  by (induction rows) (auto simp: fetchone_def)

lemma upload_file_keeps_rows:
  assumes "fetchone (db w) i = Some r"
  shows "fetchone (db (snd (upload_file sec cfg e req w))) i = Some r"
  using upload_file_db [of sec cfg e req w] assms
  by (auto simp: fetchone_append)

lemma upload_file_row_only_after_save:
  assumes "db (snd (upload_file sec cfg e req w)) \<noteq> db w"
  shows "\<exists>name bytes. req_file req = Some (name, bytes) \<and> allowed_file name
         \<and> files (fs (snd (upload_file sec cfg e req w)))
              (path_join (if (case form_media_type req of None \<Rightarrow> ''movie'' | Some m \<Rightarrow> m) = ''tv''
                          then PENDING_TV_PATH cfg else PENDING_MOVIES_PATH cfg)
                 (uuid4 e @ ''_'' @ sec name)) = Some bytes"
  using upload_file_db [of sec cfg e req w] assms by blast

text \<open>
  Two submissions of the same original name that both created a row have different
  stored names: the key is the uuid and the \<open>INSERT\<close> fails on a key that is taken.
\<close>

lemma upload_file_stored_names_differ:
  assumes first: "db (snd (upload_file sec cfg e1 req1 w)) \<noteq> db w"
    and second: "db (snd (upload_file sec cfg e2 req2 (snd (upload_file sec cfg e1 req1 w))))
                 \<noteq> db (snd (upload_file sec cfg e1 req1 w))"
    and same: "map_option fst (req_file req1) = map_option fst (req_file req2)"
  shows "filename (last (db (snd (upload_file sec cfg e1 req1 w))))
         \<noteq> filename (last (db (snd (upload_file sec cfg e2 req2 (snd (upload_file sec cfg e1 req1 w))))))"
proof -
  let ?w1 = "snd (upload_file sec cfg e1 req1 w)"
  let ?w2 = "snd (upload_file sec cfg e2 req2 ?w1)"
  from upload_file_db [of sec cfg e1 req1 w] first
  obtain name1 bytes1 row1 where r1: "req_file req1 = Some (name1, bytes1)"
    "db ?w1 = db w @ [row1]" "row_id row1 = uuid4 e1" "filename row1 = uuid4 e1 @ ''_'' @ sec name1"
    by blast
  from upload_file_db [of sec cfg e2 req2 ?w1] second
  obtain name2 bytes2 row2 where r2: "req_file req2 = Some (name2, bytes2)"
    "uuid4 e2 \<notin> row_id ` set (db ?w1)"
    "db ?w2 = db ?w1 @ [row2]" "filename row2 = uuid4 e2 @ ''_'' @ sec name2"
    by blast
  from same r1(1) r2(1) have n: "name1 = name2" by simp
  from r1(2,3) r2(2) have "uuid4 e1 \<noteq> uuid4 e2" by auto
  then have "uuid4 e1 @ ''_'' @ sec name1 \<noteq> uuid4 e2 @ ''_'' @ sec name2"
    unfolding n by simp
  then show ?thesis by (simp add: r1 r2)
qed

subsection \<open>routes.py: submission\<close>

lemma upload_row_only_after_save:
  assumes "db (snd (upload sec rcfg e req rw)) \<noteq> db rw"
  shows "\<exists>name bytes. req_file req = Some (name, bytes)
         \<and> files (fs (snd (upload sec rcfg e req rw)))
              (path_join (if (case form_media_type req of None \<Rightarrow> ''movie'' | Some m \<Rightarrow> m) = ''tv''
                          then PENDING_TV else PENDING_MOVIES)
                 (strftime (now e) @ ''_'' @ sec name)) = Some bytes"
proof (cases "req_file req")
  case None
  with assms show ?thesis by (simp add: upload_def)
next
  case (Some nb)
  obtain name bytes where nb: "nb = (name, bytes)" by (cases nb)
  let ?mtype = "case form_media_type req of None \<Rightarrow> ''movie'' | Some m \<Rightarrow> m"
  let ?dir = "if ?mtype = ''tv'' then PENDING_TV else PENDING_MOVIES"
  let ?p = "path_join ?dir (strftime (now e) @ ''_'' @ sec name)"
  consider "name = []" | "name \<noteq> []" "?dir \<in> set (denied (fs rw))"
    | "name \<noteq> []" "?dir \<notin> set (denied (fs rw))" "?p \<in> set (denied (fs rw))"
    | "name \<noteq> []" "?dir \<notin> set (denied (fs rw))" "?p \<notin> set (denied (fs rw))"
    by blast
  then show ?thesis
  proof cases
    case 1
    with Some nb assms show ?thesis by (simp add: upload_def Let_def)
  next
    case 2
    with Some nb assms show ?thesis by (simp add: upload_def Let_def mkdir_def)
  next
    case 3
    with Some nb assms show ?thesis by (simp add: upload_def Let_def mkdir_def save_def)
  next
    case 4
    with Some nb show ?thesis
      by (simp add: upload_def Let_def mkdir_def save_def getsize_def routes_notify_frame)
  qed
qed

subsection \<open>main.py: the lists of the admin panel\<close>

lemma order_by_desc_sorted:
  "sorted_wrt (\<lambda>a b. k b \<le> k a) (order_by_desc k rows)"
proof -
  have "sorted (map k (sort_key k rows))" by simp
  then have "sorted_wrt (\<lambda>a b. k a \<le> k b) (sort_key k rows)"
    by (simp add: sorted_wrt_map)
  then show ?thesis
    by (simp add: order_by_desc_def sorted_wrt_rev)
qed

lemma order_by_desc_mset: "mset (order_by_desc k rows) = mset rows"
  by (simp add: order_by_desc_def)

text \<open>
  The pending list holds exactly the pending rows, latest \<open>upload_date\<close> first.
\<close>

lemma admin_panel_pending:
  "mset (fst (admin_panel w)) = filter_mset (\<lambda>r. status r = Pending) (mset (db w))
   \<and> sorted_wrt (\<lambda>a b. upload_date b \<le> upload_date a) (fst (admin_panel w))"
  by (simp add: admin_panel_def order_by_desc_sorted order_by_desc_mset)

text \<open>
  The processed list holds at most 50 of the reviewed rows, latest \<open>reviewed_date\<close>
  first, and every reviewed row left out was reviewed no later than each row listed.
\<close>

lemma admin_panel_processed:
  "sorted_wrt (\<lambda>a b. reviewed_date b \<le> reviewed_date a) (snd (admin_panel w))
   \<and> length (snd (admin_panel w)) \<le> 50
   \<and> mset (snd (admin_panel w)) \<subseteq># filter_mset (\<lambda>r. status r \<noteq> Pending) (mset (db w))
   \<and> (\<forall>x \<in># filter_mset (\<lambda>r. status r \<noteq> Pending) (mset (db w)) - mset (snd (admin_panel w)).
        \<forall>y \<in> set (snd (admin_panel w)). reviewed_date x \<le> reviewed_date y)
   \<and> (length (filter (\<lambda>r. status r \<noteq> Pending) (db w)) \<le> 50 \<longrightarrow>
        mset (snd (admin_panel w)) = filter_mset (\<lambda>r. status r \<noteq> Pending) (mset (db w)))"
proof -
  let ?all = "order_by_desc reviewed_date (filter (\<lambda>r. status r \<noteq> Pending) (db w))"
  have split: "take 50 ?all @ drop 50 ?all = ?all" by simp
  have s: "sorted_wrt (\<lambda>a b. reviewed_date b \<le> reviewed_date a) (take 50 ?all @ drop 50 ?all)"
    unfolding split by (rule order_by_desc_sorted)
  have m: "mset (take 50 ?all) + mset (drop 50 ?all)
           = filter_mset (\<lambda>r. status r \<noteq> Pending) (mset (db w))"
    using order_by_desc_mset [of reviewed_date "filter (\<lambda>r. status r \<noteq> Pending) (db w)"]
    by (metis mset_append mset_filter split)
  have rest: "filter_mset (\<lambda>r. status r \<noteq> Pending) (mset (db w)) - mset (take 50 ?all)
              = mset (drop 50 ?all)"
    unfolding m [symmetric] by simp
  have len: "length ?all = length (filter (\<lambda>r. status r \<noteq> Pending) (db w))"
    using order_by_desc_mset [of reviewed_date "filter (\<lambda>r. status r \<noteq> Pending) (db w)"]
    by (metis size_mset)
  have "sorted_wrt (\<lambda>a b. reviewed_date b \<le> reviewed_date a) (take 50 ?all)"
    using s unfolding sorted_wrt_append by simp
  moreover have "length (take 50 ?all) \<le> 50" by simp
  moreover have "mset (take 50 ?all) \<subseteq># filter_mset (\<lambda>r. status r \<noteq> Pending) (mset (db w))"
    unfolding m [symmetric] by simp
  moreover have "\<forall>x \<in># filter_mset (\<lambda>r. status r \<noteq> Pending) (mset (db w)) - mset (take 50 ?all).
        \<forall>y \<in> set (take 50 ?all). reviewed_date x \<le> reviewed_date y"
    using s unfolding rest sorted_wrt_append by auto
  moreover have "length (filter (\<lambda>r. status r \<noteq> Pending) (db w)) \<le> 50 \<longrightarrow>
        mset (take 50 ?all) = filter_mset (\<lambda>r. status r \<noteq> Pending) (mset (db w))"
    using m len by auto
  ultimately show ?thesis by (simp add: admin_panel_def)
qed

end
